theory Spec2Isabelle
  imports Complex_Main "HOL-Library.Multiset" "HOL-Library.Word" "HOL-Library.AList"
    "HOL-Library.List_Lexorder" "HOL-Library.Char_ord"
begin

section \<open>JavaScript values and string operations used by the handlers\<close>

text \<open>
  Header values, file names and mimetypes are strings of 8-bit characters (Node decodes
  header bytes as Latin-1, one character per byte). A missing header, \<open>undefined\<close> and
  \<open>null\<close> are \<open>None\<close>. A header is truthy when it is present and not the empty
  string.
\<close>

type_synonym byte = "8 word"
type_synonym bytes = "byte list"

text \<open>A \<open>Date\<close>, as its time value: milliseconds since the epoch.\<close>

type_synonym date = int

definition truthy :: "string option \<Rightarrow> bool" where
  "truthy h = (case h of None \<Rightarrow> False | Some v \<Rightarrow> v \<noteq> [])"

text \<open>
  A JavaScript number: \<open>NaN\<close>, the two infinities, or a finite value (every finite
  double is a rational; \<open>-0\<close> and \<open>+0\<close> are both \<open>Num 0\<close>, and no operation below
  tells them apart).
\<close>

datatype jsnum = NaN | NegInfinity | Num rat | PosInfinity

text \<open>\<open>isNaN(x)\<close>, \<open>x < c\<close>, \<open>x > c\<close> and the truthiness of \<open>x\<close>, for \<open>x\<close> a number or
  \<open>null\<close>: \<open>null\<close> converts to 0 in each of them and is falsy.\<close>

fun isNaN :: "jsnum option \<Rightarrow> bool" where
  "isNaN (Some NaN) = True"
| "isNaN _ = False"

fun js_less :: "jsnum option \<Rightarrow> rat \<Rightarrow> bool" where
  "js_less None c = (0 < c)"
| "js_less (Some NaN) c = False"
| "js_less (Some NegInfinity) c = True"
| "js_less (Some (Num r)) c = (r < c)"
| "js_less (Some PosInfinity) c = False"

fun js_greater :: "jsnum option \<Rightarrow> rat \<Rightarrow> bool" where
  "js_greater None c = (0 > c)"
| "js_greater (Some NaN) c = False"
| "js_greater (Some NegInfinity) c = False"
| "js_greater (Some (Num r)) c = (r > c)"
| "js_greater (Some PosInfinity) c = True"

fun truthy_num :: "jsnum option \<Rightarrow> bool" where
  "truthy_num None = False"
| "truthy_num (Some NaN) = False"
| "truthy_num (Some (Num r)) = (r \<noteq> 0)"
| "truthy_num (Some _) = True"

text \<open>\<open>ToIntegerOrInfinity\<close> on a finite value: truncation towards zero.\<close>

definition truncate_rat :: "rat \<Rightarrow> int" where
  "truncate_rat r = (if 0 \<le> r then \<lfloor>r\<rfloor> else \<lceil>r\<rceil>)"

text \<open>\<open>String.prototype.toUpperCase\<close> on the ASCII letters. A character outside ASCII is
  left as it is: no Latin-1 character has an upper case that is an ASCII letter except
  \<open>U+00DF\<close> (which becomes \<open>SS\<close>), so membership of the result in the ASCII enum names below
  is what JavaScript computes.\<close>

definition upper_char :: "char \<Rightarrow> char" where
  "upper_char c =
     (if (97::nat) \<le> of_char c \<and> of_char c \<le> (122::nat) then char_of (of_char c - (32::nat)) else c)"

definition toUpperCase :: "string \<Rightarrow> string" where
  "toUpperCase s = map upper_char s"

text \<open>\<open>s.startsWith(p)\<close>.\<close>

definition startsWith :: "string \<Rightarrow> string \<Rightarrow> bool" where
  "startsWith s p = (take (length p) s = p)"

text \<open>\<open>s.split(c)\<close> for a one-character separator: always at least one field.\<close>

fun split_on :: "char \<Rightarrow> string \<Rightarrow> string list" where
  "split_on c [] = [[]]"
| "split_on c (x # xs) =
     (if x = c then [] # split_on c xs
      else (case split_on c xs of [] \<Rightarrow> [[x]] | f # fs \<Rightarrow> (x # f) # fs))"

text \<open>\<open>s.replace(pat, rep)\<close> for a non-empty string pattern and a replacement without
  \<open>$\<close>: the first occurrence only.\<close>

fun replace_first :: "string \<Rightarrow> string \<Rightarrow> string \<Rightarrow> string" where
  "replace_first pat rep [] = (if pat = [] then rep else [])"
| "replace_first pat rep (x # xs) =
     (if take (length pat) (x # xs) = pat then rep @ drop (length pat) (x # xs)
      else x # replace_first pat rep xs)"

text \<open>An array element that may be missing: \<open>xs[i]\<close> is \<open>undefined\<close> out of range.\<close>

definition at_index :: "'a list \<Rightarrow> nat \<Rightarrow> 'a option" where
  "at_index xs i = (if i < length xs then Some (xs ! i) else None)"

text \<open>Decimal digits of a natural number, as a template literal prints an index.\<close>

definition digit_char :: "nat \<Rightarrow> char" where
  "digit_char d = ''0123456789'' ! d"

fun dec :: "nat \<Rightarrow> string" where
  "dec n = (if n < 10 then [digit_char n] else dec (n div 10) @ [digit_char (n mod 10)])"

declare dec.simps [simp del]

text \<open>The extension of a file name: the part after the last dot, or empty without a dot
  (\<open>name.split('.').length === 1 ? '' : name.split('.').pop()\<close>), and its stem
  \<open>name.split('.')[0]\<close>.\<close>

definition ext_of :: "string \<Rightarrow> string" where
  "ext_of n = (if length (split_on CHR ''.'' n) = 1 then [] else last (split_on CHR ''.'' n))"

definition stem_of :: "string \<Rightarrow> string" where
  "stem_of n = hd (split_on CHR ''.'' n)"

definition join_with :: "string \<Rightarrow> string list \<Rightarrow> string" where
  "join_with sep xs = (case xs of [] \<Rightarrow> [] | y # ys \<Rightarrow> y @ concat (map (\<lambda>z. sep @ z) ys))"

text \<open>A value interpolated into a template literal: \<open>undefined\<close> prints as the word.\<close>

definition template_str :: "string option \<Rightarrow> string" where
  "template_str h = (case h of None \<Rightarrow> ''undefined'' | Some v \<Rightarrow> v)"

section \<open>Data model\<close>

datatype FileNameFormat = UUID | DATE | RANDOM | NAME

text \<open>A row of the user table, as \<open>prisma.user.findFirst\<close> returns it. \<open>uid\<close> is the
  column \<open>id\<close>.\<close>

record User =
  uid :: nat
  username :: string
  token :: string
  administrator :: bool
  domains :: "string list"
  ratelimit :: "date option"

text \<open>A File Record. \<open>fid\<close> is the column \<open>id\<close>. \<open>format\<close> is \<open>None\<close> when the handler
  passes \<open>false\<close> (no enum member matched), \<open>mimetype\<close> is \<open>None\<close> when the handler passes
  \<open>undefined\<close>; what the metadata store makes of such values is its own business.\<close>

record File =
  fid :: nat
  name :: string
  mimetype :: "string option"
  userId :: nat
  embed :: bool
  format :: "FileNameFormat option"
  password :: "string option"
  expiresAt :: "date option"
  maxViews :: "jsnum option"
  originalName :: "string option"
  favorite :: bool
  views :: nat
  createdAt :: date

record InvisibleFile =
  invis :: string
  fileId :: nat

text \<open>One element of \<open>req.files\<close>, as multer's memory storage delivers it.\<close>

record multer_file =
  originalname :: string
  file_mimetype :: string
  file_size :: nat
  buffer :: bytes

text \<open>\<open>req.body.favorite\<close> of the file management endpoint.\<close>

datatype favorite_arg = FavUndefined | FavNull | FavBool bool

text \<open>The request, after \<open>uploader.array('file')\<close> has run (lines 33 to 38; a body
  that multer rejects is not a request of this model). \<open>files\<close> is \<open>None\<close> when
  multer found no multipart body (\<open>req.files\<close> undefined). \<open>body_all\<close> is the
  truthiness of \<open>req.body.all\<close>; \<open>body_id\<close> is \<open>req.body.id\<close>, falsy when
  missing or 0.\<close>

record NextApiReq =
  http_method :: string
  headers :: "string \<Rightarrow> string option"
  query :: "string \<Rightarrow> string option"
  files :: "multer_file list option"
  body_all :: bool
  body_id :: "nat option"
  body_favorite :: favorite_arg

text \<open>The fields of \<open>zconfig\<close> that the handlers read.\<close>

record zconfig =
  core_return_https :: bool
  uploader_default_expiration :: "string option"
  uploader_default_format :: string
  uploader_length :: nat
  uploader_format_date :: string
  uploader_disabled_extensions :: "string list"
  uploader_admin_limit :: nat
  uploader_user_limit :: nat
  uploader_route :: string
  ratelimit_admin :: int
  ratelimit_user :: int
  exif_enabled :: bool
  exif_remove_gps :: bool

text \<open>
  The state the handlers read and write: the metadata store (users, File Records,
  Invisible File Mappings), the temp directory of chunk files and the blob store. The
  temp directory and the blob store are association lists from entry name to content.
\<close>

type_synonym directory = "(string \<times> bytes) list"

record state =
  user_table :: "User list"
  file_table :: "File list"
  invisible_table :: "InvisibleFile list"
  next_file_id :: nat
  tmpdir :: directory
  datasource :: directory

text \<open>
  What the handlers call and this repository does not define: built-ins of JavaScript
  and Node, libraries, and the modules under \<open>lib/\<close>. They are parameters of the model.
  Where one is random or reads the clock, its first argument is the index of the file
  it is called for, so that two calls may answer differently.
  \<^item> \<open>Number\<close>: the global \<open>Number(s)\<close> on a string;
  \<^item> \<open>String_of_number\<close>: how a template literal prints a number;
  \<^item> \<open>parseExpiry\<close> (\<open>lib/utils/client\<close>): \<open>None\<close> is a falsy result;
  \<^item> \<open>randomChars\<close> (\<open>lib/util\<close>), \<open>randomUUID\<close>, \<open>dayjs_format\<close>
    (\<open>dayjs().format(pattern)\<close>);
  \<^item> \<open>Math_random i n\<close>: \<open>Math.floor(Math.random() * n)\<close>;
  \<^item> \<open>hashPassword\<close> (\<open>lib/util\<close>);
  \<^item> \<open>invis_code\<close>: the code \<open>createInvisImage(length, id)\<close> draws;
  \<^item> \<open>sharp_jpeg\<close>: \<open>sharp(buf).jpeg({quality}).toBuffer()\<close>, \<open>None\<close> when it rejects;
  \<^item> \<open>removeGPSData\<close> (\<open>lib/utils/exif\<close>): its effect on the blob store;
  \<^item> \<open>Date_now_check\<close>, \<open>Date_now_set\<close>: \<open>Date.now()\<close> at the rate-limit check and
    at the end of the batch; \<open>created_now\<close>: the store's clock at a creation;
  \<^item> \<open>tmp_entry\<close>: whether \<open>join(tmpdir(), n)\<close> names a direct entry of the temp
    directory that the file system accepts (\<open>n\<close> has no path separator, and so on);
  \<^item> \<open>max_typed_array_length\<close>: the longest \<open>Uint8Array\<close> the engine allocates;
  \<^item> \<open>formatRootUrl\<close> (\<open>lib/utils/urls\<close>).
  The notification \<open>sendUpload\<close> (lines 189 and 328) and the log lines are left out:
  they change nothing that the state below holds.
\<close>

record env =
  Number :: "string \<Rightarrow> jsnum"
  String_of_number :: "jsnum \<Rightarrow> string"
  parseExpiry :: "string \<Rightarrow> date option"
  randomChars :: "nat \<Rightarrow> nat \<Rightarrow> string"
  randomUUID :: "nat \<Rightarrow> string"
  dayjs_format :: "nat \<Rightarrow> string \<Rightarrow> string"
  Math_random :: "nat \<Rightarrow> nat \<Rightarrow> nat"
  hashPassword :: "string \<Rightarrow> string"
  invis_code :: "nat \<Rightarrow> nat \<Rightarrow> string"
  sharp_jpeg :: "bytes \<Rightarrow> jsnum option \<Rightarrow> bytes option"
  removeGPSData :: "File \<Rightarrow> directory \<Rightarrow> directory"
  Date_now_check :: int
  Date_now_set :: int
  created_now :: "nat \<Rightarrow> date"
  tmp_entry :: "string \<Rightarrow> bool"
  max_typed_array_length :: nat
  formatRootUrl :: "string \<Rightarrow> string \<Rightarrow> string"

text \<open>What the upload handler answers with \<open>res.json(response)\<close>.\<close>

record upload_response =
  resp_files :: "string list"
  resp_expiresAt :: "date option"
  resp_removed_gps :: bool

text \<open>One entry of the listing of the file management endpoint: the selected columns
  and the \<open>url\<close> the handler adds.\<close>

record listed_file =
  l_favorite :: bool
  l_createdAt :: date
  l_id :: nat
  l_name :: string
  l_mimetype :: "string option"
  l_expiresAt :: "date option"
  l_maxViews :: "jsnum option"
  l_views :: nat
  l_url :: string

datatype js_error = TypeError | RangeError | ENOENT | SharpError | RecordNotFound

text \<open>
  How a request ends: one of the responses of \<open>withZipline\<close>, or an exception that
  leaves the handler (\<open>Threw\<close>). \<open>OutsideModel\<close>: the chunk's path is not an entry of
  the temp directory (see \<open>tmp_entry\<close>); what happens then depends on the rest of the
  file system and is not described here.
\<close>

datatype reply =
    Forbidden string
  | BadRequest string
  | Ratelimited int
  | ErrorReply string
  | JsonUpload upload_response
  | JsonSuccess
  | PlainText string
  | JsonCount nat
  | JsonFile File
  | JsonFiles "listed_file list"
  | Threw js_error
  | OutsideModel

text \<open>A step of a handler either ends the request or goes on with a value.\<close>

datatype 'a step = Stop reply | Next 'a

section \<open>Metadata store, temp directory and blob store\<close>

text \<open>\<open>prisma.user.findFirst({where: {token}})\<close>.\<close>

definition user_findFirst :: "state \<Rightarrow> string \<Rightarrow> User option" where
  "user_findFirst s t = find (\<lambda>u. token u = t) (user_table s)"

text \<open>\<open>prisma.user.update({where: {id}, data: {ratelimit}})\<close>.\<close>

definition user_update_ratelimit :: "nat \<Rightarrow> date option \<Rightarrow> state \<Rightarrow> state" where
  "user_update_ratelimit i r s =
     s\<lparr>user_table := map (\<lambda>u. if uid u = i then u\<lparr>ratelimit := r\<rparr> else u) (user_table s)\<rparr>"

text \<open>
  Modelled from the spec: the schema of the metadata store is missing from the sources.
  \<open>prisma.file.create\<close> adds a File Record with the data the handler passes, a fresh id,
  the store's creation timestamp, view counter 0 and the favorite flag unset, and
  returns the record.
\<close>

definition file_create ::
  "env \<Rightarrow> string \<Rightarrow> string option \<Rightarrow> nat \<Rightarrow> bool \<Rightarrow> FileNameFormat option \<Rightarrow> string option \<Rightarrow>
   date option \<Rightarrow> jsnum option \<Rightarrow> string option \<Rightarrow> state \<Rightarrow> File \<times> state" where
  "file_create e nm mt owner emb fmt pw ex mv orig s =
     (let f = \<lparr>fid = next_file_id s, name = nm, mimetype = mt, userId = owner, embed = emb,
                format = fmt, password = pw, expiresAt = ex, maxViews = mv, originalName = orig,
                favorite = False, views = 0, createdAt = created_now e (next_file_id s)\<rparr>
      in (f, s\<lparr>file_table := file_table s @ [f], next_file_id := Suc (next_file_id s)\<rparr>))"

text \<open>
  Modelled from the spec: \<open>createInvisImage\<close> (\<open>lib/util\<close>) is missing from the sources.
  It binds an obfuscated code to the File Record's id in a new Invisible File Mapping
  and returns the mapping.
\<close>

definition createInvisImage :: "env \<Rightarrow> nat \<Rightarrow> nat \<Rightarrow> state \<Rightarrow> InvisibleFile \<times> state" where
  "createInvisImage e len i s =
     (let iv = \<lparr>invis = invis_code e len i, fileId = i\<rparr>
      in (iv, s\<lparr>invisible_table := invisible_table s @ [iv]\<rparr>))"

text \<open>\<open>datasource.save(name, data)\<close> and \<open>datasource.delete(name)\<close>: the blob store is
  keyed by file name.\<close>

definition datasource_save :: "string \<Rightarrow> bytes \<Rightarrow> state \<Rightarrow> state" where
  "datasource_save n b s = s\<lparr>datasource := AList.update n b (datasource s)\<rparr>"

definition datasource_delete :: "string \<Rightarrow> state \<Rightarrow> state" where
  "datasource_delete n s = s\<lparr>datasource := AList.delete n (datasource s)\<rparr>"

section \<open>The upload handler: validation of the request (lines 23 to 70)\<close>

text \<open>What the validation leaves for the rest of the handler: the user row read at the
  start, \<open>expiry\<close>, \<open>response.expiresAt\<close>, \<open>format\<close>, \<open>imageCompressionPercent\<close> and
  \<open>fileMaxViews\<close>.\<close>

record params =
  p_user :: User
  p_expiry :: "date option"
  p_response_expiresAt :: "date option"
  p_format :: "FileNameFormat option"
  p_imageCompressionPercent :: "jsnum option"
  p_fileMaxViews :: "jsnum option"

definition authorize :: "state \<Rightarrow> NextApiReq \<Rightarrow> reply + User" where
  "authorize s req =
     (case headers req ''authorization'' of
        None \<Rightarrow> Inl (Forbidden ''no authorization'')
      | Some t \<Rightarrow>
          if t = [] then Inl (Forbidden ''no authorization'')
          else (case user_findFirst s t of
                  None \<Rightarrow> Inl (Forbidden ''authorization incorrect'')
                | Some u \<Rightarrow> Inr u))"

text \<open>Lines 41 to 55. The result is \<open>(expiry, response.expiresAt)\<close>. The second
  \<open>if\<close> is not an \<open>else\<close> of the first: a configured default is parsed, and assigned
  to \<open>expiry\<close>, whether or not the header was given.\<close>

definition read_expiry :: "env \<Rightarrow> zconfig \<Rightarrow> NextApiReq \<Rightarrow> reply + (date option \<times> date option)" where
  "read_expiry e c req =
     (case (case headers req ''expires-at'' of
              None \<Rightarrow> Inr (None, None)
            | Some v \<Rightarrow>
                if v = [] then Inr (None, None)
                else (case parseExpiry e v of
                        None \<Rightarrow> Inl (BadRequest ''invalid date'')
                      | Some d \<Rightarrow> Inr (Some d, Some d))) of
        Inl r \<Rightarrow> Inl r
      | Inr (expiry, shown) \<Rightarrow>
          (case uploader_default_expiration c of
             None \<Rightarrow> Inr (expiry, shown)
           | Some v \<Rightarrow>
               if v = [] then Inr (expiry, shown)
               else (case parseExpiry e v of
                       None \<Rightarrow> Inl (BadRequest ''invalid date (UPLOADER_DEFAULT_EXPIRATION)'')
                     | Some d \<Rightarrow> Inr (Some d, shown))))"

text \<open>Lines 57 and 58: \<open>rawFormat\<close>, and \<open>format\<close>, which is \<open>false\<close> (\<open>None\<close>) when
  \<open>rawFormat\<close> is not a key of the enum.\<close>

definition rawFormat :: "zconfig \<Rightarrow> NextApiReq \<Rightarrow> string" where
  "rawFormat c req =
     (let h = toUpperCase (case headers req ''format'' of None \<Rightarrow> [] | Some v \<Rightarrow> v)
      in if h \<noteq> [] then h else uploader_default_format c)"

definition enum_member :: "string \<Rightarrow> FileNameFormat option" where
  "enum_member k =
     (if k = ''UUID'' then Some UUID
      else if k = ''DATE'' then Some DATE
      else if k = ''RANDOM'' then Some RANDOM
      else if k = ''NAME'' then Some NAME
      else None)"

definition read_format :: "zconfig \<Rightarrow> NextApiReq \<Rightarrow> FileNameFormat option" where
  "read_format c req = enum_member (rawFormat c req)"

text \<open>Lines 60 to 70: a numeric header is \<open>Number(header)\<close> when the header is truthy
  and \<open>null\<close> otherwise.\<close>

definition number_header :: "env \<Rightarrow> NextApiReq \<Rightarrow> string \<Rightarrow> jsnum option" where
  "number_header e req h =
     (case headers req h of
        None \<Rightarrow> None
      | Some v \<Rightarrow> if v = [] then None else Some (Number e v))"

definition validate :: "env \<Rightarrow> zconfig \<Rightarrow> state \<Rightarrow> NextApiReq \<Rightarrow> reply + params" where
  "validate e c s req =
     (case authorize s req of
        Inl r \<Rightarrow> Inl r
      | Inr u \<Rightarrow>
          (case read_expiry e c req of
             Inl r \<Rightarrow> Inl r
           | Inr (expiry, shown) \<Rightarrow>
               (let imageCompressionPercent = number_header e req ''image-compression-percent'';
                    fileMaxViews = number_header e req ''max-views''
                in if isNaN imageCompressionPercent
                   then Inl (BadRequest ''invalid image compression percent (invalid number)'')
                   else if js_less imageCompressionPercent 0 \<or> js_greater imageCompressionPercent 100
                   then Inl (BadRequest ''invalid image compression percent (% < 0 || % > 100)'')
                   else if isNaN fileMaxViews
                   then Inl (BadRequest ''invalid max views (invalid number)'')
                   else if js_less fileMaxViews 0
                   then Inl (BadRequest ''invalid max views (max views < 0)'')
                   else Inr \<lparr>p_user = u, p_expiry = expiry, p_response_expiresAt = shown,
                             p_format = read_format c req,
                             p_imageCompressionPercent = imageCompressionPercent,
                             p_fileMaxViews = fileMaxViews\<rparr>)))"

section \<open>The upload handler: what the two paths share\<close>

definition scheme :: "zconfig \<Rightarrow> string" where
  "scheme c = (if core_return_https c then ''https'' else ''http'')"

text \<open>\<open>zconfig.uploader.route === '/' ? '/' : zconfig.uploader.route\<close>.\<close>

definition route_prefix :: "zconfig \<Rightarrow> string" where
  "route_prefix c = (if uploader_route c = ''/'' then ''/'' else uploader_route c)"

text \<open>The suffix of the stored name:
  \<open>compressionUsed ? '.jpg' : `${ext ? '.' : ''}${ext}`\<close>.\<close>

definition name_suffix :: "bool \<Rightarrow> string \<Rightarrow> string" where
  "name_suffix compressionUsed ext =
     (if compressionUsed then ''.jpg'' else (if ext \<noteq> [] then ''.'' else []) @ ext)"

definition hashed_password :: "env \<Rightarrow> NextApiReq \<Rightarrow> string option" where
  "hashed_password e req =
     (case headers req ''password'' of
        None \<Rightarrow> None
      | Some v \<Rightarrow> if v = [] then None else Some (hashPassword e v))"

text \<open>\<open>if (req.headers.zws) invis = await createInvisImage(zconfig.uploader.length, id)\<close>.\<close>

definition maybe_invis :: "env \<Rightarrow> zconfig \<Rightarrow> NextApiReq \<Rightarrow> nat \<Rightarrow> state \<Rightarrow> InvisibleFile option \<times> state" where
  "maybe_invis e c req i s =
     (if truthy (headers req ''zws'')
      then (case createInvisImage e (uploader_length c) i s of (iv, s') \<Rightarrow> (Some iv, s'))
      else (None, s))"

text \<open>\<open>`${domain}${route}${invis ? invis.invis : file.name}`\<close>.\<close>

definition responseUrl :: "zconfig \<Rightarrow> string \<Rightarrow> InvisibleFile option \<Rightarrow> File \<Rightarrow> string" where
  "responseUrl c domain iv f =
     domain @ route_prefix c @ (case iv of Some v \<Rightarrow> invis v | None \<Rightarrow> name f)"

text \<open>Lines 332 to 335 and 193 to 196: the GPS pass and the flag of the response, when
  the configuration enables both and the mimetype begins with \<open>image/\<close>.\<close>

definition exif_wanted :: "zconfig \<Rightarrow> bool" where
  "exif_wanted c = (exif_enabled c \<and> exif_remove_gps c)"

definition strip_gps :: "env \<Rightarrow> File \<Rightarrow> upload_response \<Rightarrow> state \<Rightarrow> upload_response \<times> state" where
  "strip_gps e f resp s =
     (resp\<lparr>resp_removed_gps := True\<rparr>, s\<lparr>datasource := removeGPSData e f (datasource s)\<rparr>)"

text \<open>\<open>m.startsWith(p)\<close> on a value that may be \<open>undefined\<close>: then it throws.\<close>

definition startsWith_opt :: "string option \<Rightarrow> string \<Rightarrow> js_error + bool" where
  "startsWith_opt m p = (case m of None \<Rightarrow> Inl TypeError | Some v \<Rightarrow> Inr (startsWith v p))"

text \<open>\<open>user.domains[Math.floor(Math.random() * user.domains.length)]\<close>, called when
  the list is not empty; \<open>Math.random()\<close> is below 1, so the index is in range.\<close>

definition random_domain :: "env \<Rightarrow> User \<Rightarrow> nat \<Rightarrow> string" where
  "random_domain e u i = domains u ! (Math_random e i (length (domains u)) mod length (domains u))"

section \<open>The upload handler: whole uploads (lines 206 to 365)\<close>

text \<open>Lines 206 to 221.\<close>

definition check_ratelimit :: "env \<Rightarrow> User \<Rightarrow> state \<Rightarrow> unit step \<times> state" where
  "check_ratelimit e u s =
     (case ratelimit u of
        None \<Rightarrow> (Next (), s)
      | Some t \<Rightarrow>
          (let remaining = t - Date_now_check e
           in if remaining \<le> 0 then (Next (), user_update_ratelimit (uid u) None s)
              else (Stop (Ratelimited remaining), s)))"

text \<open>Lines 249 to 276: the base name, by the \<open>switch\<close> on \<open>format\<close>. The
  \<open>default\<close> branch is taken when \<open>format\<close> is \<open>false\<close>.\<close>

definition choose_fileName ::
  "env \<Rightarrow> zconfig \<Rightarrow> NextApiReq \<Rightarrow> FileNameFormat option \<Rightarrow> nat \<Rightarrow> multer_file \<Rightarrow> state \<Rightarrow> reply + string" where
  "choose_fileName e c req fmt i f s =
     (case fmt of
        Some RANDOM \<Rightarrow> Inr (randomChars e i (uploader_length c))
      | Some DATE \<Rightarrow> Inr (dayjs_format e i (uploader_format_date c))
      | Some UUID \<Rightarrow> Inr (randomUUID e i)
      | Some NAME \<Rightarrow> Inr (stem_of (originalname f))
      | None \<Rightarrow>
          (case headers req ''x-zipline-filename'' of
             None \<Rightarrow> Inr (randomChars e i (uploader_length c))
           | Some fileName \<Rightarrow>
               if fileName = [] then Inr (randomChars e i (uploader_length c))
               else if list_ex (\<lambda>r. name r = fileName) (file_table s)
               then Inl (BadRequest (''file['' @ dec i @ '']: filename already exists: '' @
                                      [CHR 0x27] @ fileName @ [CHR 0x27]))
               else Inr fileName))"

text \<open>Lines 312 to 320.\<close>

definition whole_domain :: "env \<Rightarrow> zconfig \<Rightarrow> NextApiReq \<Rightarrow> User \<Rightarrow> nat \<Rightarrow> string" where
  "whole_domain e c req u i =
     (if truthy (headers req ''override-domain'')
      then scheme c @ ''://'' @ template_str (headers req ''override-domain'')
      else if domains u \<noteq> [] then scheme c @ ''://'' @ random_domain e u i
      else scheme c @ ''://'' @ template_str (headers req ''host''))"

text \<open>Lines 278 to 335: the record, the invisible mapping, the bytes, the URL.\<close>

definition store_one ::
  "env \<Rightarrow> zconfig \<Rightarrow> NextApiReq \<Rightarrow> params \<Rightarrow> nat \<Rightarrow> multer_file \<Rightarrow> string \<Rightarrow> string \<Rightarrow>
   upload_response \<Rightarrow> state \<Rightarrow> upload_response step \<times> state" where
  "store_one e c req p i f ext fileName resp s =
     (let compressionUsed =
            (truthy_num (p_imageCompressionPercent p) \<and> startsWith (file_mimetype f) ''image/'')
      in case file_create e (fileName @ name_suffix compressionUsed ext)
                (Some (if truthy (headers req ''uploadtext'') then ''text/plain''
                       else if compressionUsed then ''image/jpeg'' else file_mimetype f))
                (uid (p_user p)) (truthy (headers req ''embed'')) (p_format p)
                (hashed_password e req) (p_expiry p) (p_fileMaxViews p)
                (if truthy (headers req ''original-name'') then Some (originalname f) else None) s of
           (fileUpload, s1) \<Rightarrow>
      (case maybe_invis e c req (fid fileUpload) s1 of
           (iv, s2) \<Rightarrow>
      (case (if compressionUsed
             then (case sharp_jpeg e (buffer f) (p_imageCompressionPercent p) of
                     None \<Rightarrow> Inl SharpError | Some b \<Rightarrow> Inr b)
             else Inr (buffer f)) of
         Inl err \<Rightarrow> (Stop (Threw err), s2)
       | Inr data \<Rightarrow>
           (let s3 = datasource_save (name fileUpload) data s2;
                url = responseUrl c (whole_domain e c req (p_user p) i) iv fileUpload;
                resp1 = resp\<lparr>resp_files := resp_files resp @ [url]\<rparr>
            in case (if exif_wanted c then startsWith_opt (mimetype fileUpload) ''image/''
                     else Inr False) of
                 Inl err \<Rightarrow> (Stop (Threw err), s3)
               | Inr strip \<Rightarrow>
                   if strip then (case strip_gps e fileUpload resp1 s3 of (r, s4) \<Rightarrow> (Next r, s4))
                   else (Next resp1, s3)))))"

text \<open>Lines 239 to 276: the checks on one file, before anything is stored.\<close>

definition upload_one ::
  "env \<Rightarrow> zconfig \<Rightarrow> NextApiReq \<Rightarrow> params \<Rightarrow> nat \<Rightarrow> multer_file \<Rightarrow> upload_response \<Rightarrow> state \<Rightarrow>
   upload_response step \<times> state" where
  "upload_one e c req p i f resp s =
     (if file_size f > (if administrator (p_user p) then uploader_admin_limit c
                        else uploader_user_limit c)
      then (Stop (BadRequest (''file['' @ dec i @ '']: size too big'')), s)
      else if originalname f = []
      then (Stop (BadRequest (''file['' @ dec i @ '']: no filename'')), s)
      else if List.member (uploader_disabled_extensions c) (ext_of (originalname f))
      then (Stop (BadRequest (''file['' @ dec i @ '']: disabled extension recieved: '' @
                              ext_of (originalname f))), s)
      else (case choose_fileName e c req (p_format p) i f s of
              Inl r \<Rightarrow> (Stop r, s)
            | Inr fileName \<Rightarrow> store_one e c req p i f (ext_of (originalname f)) fileName resp s))"

text \<open>The loop of line 238: it stops at the first file that fails; what the earlier
  files stored stays.\<close>

fun upload_files ::
  "env \<Rightarrow> zconfig \<Rightarrow> NextApiReq \<Rightarrow> params \<Rightarrow> nat \<Rightarrow> multer_file list \<Rightarrow> upload_response \<Rightarrow> state \<Rightarrow>
   upload_response step \<times> state" where
  "upload_files e c req p i [] resp s = (Next resp, s)"
| "upload_files e c req p i (f # fs) resp s =
     (case upload_one e c req p i f resp s of
        (Stop r, s') \<Rightarrow> (Stop r, s')
      | (Next resp', s') \<Rightarrow> upload_files e c req p (Suc i) fs resp' s')"

text \<open>Lines 338 to 358, with the inner test of line 348 as the source has it.\<close>

definition set_cooldown :: "env \<Rightarrow> zconfig \<Rightarrow> User \<Rightarrow> state \<Rightarrow> state" where
  "set_cooldown e c u s =
     (if administrator u \<and> ratelimit_admin c > 0
      then user_update_ratelimit (uid u) (Some (Date_now_set e + ratelimit_admin c * 1000)) s
      else if \<not> administrator u \<and> ratelimit_user c > 0
      then (if administrator u \<and> ratelimit_user c > 0
            then user_update_ratelimit (uid u) (Some (Date_now_set e + ratelimit_user c * 1000)) s
            else s)
      else s)"

definition whole_upload :: "env \<Rightarrow> zconfig \<Rightarrow> NextApiReq \<Rightarrow> params \<Rightarrow> state \<Rightarrow> reply \<times> state" where
  "whole_upload e c req p s =
     (case check_ratelimit e (p_user p) s of
        (Stop r, s1) \<Rightarrow> (r, s1)
      | (Next _, s1) \<Rightarrow>
          (case files req of
             None \<Rightarrow> (BadRequest ''no files'', s1)
           | Some fs \<Rightarrow>
               if fs = [] then (BadRequest ''no files'', s1)
               else (case upload_files e c req p 0 fs
                            \<lparr>resp_files = [], resp_expiresAt = p_response_expiresAt p,
                             resp_removed_gps = False\<rparr> s1 of
                       (Stop r, s2) \<Rightarrow> (r, s2)
                     | (Next resp, s2) \<Rightarrow>
                         (let s3 = set_cooldown e c (p_user p) s2
                          in if truthy (headers req ''no-json'')
                             then (PlainText (join_with '','' (resp_files resp)), s3)
                             else (JsonUpload resp, s3)))))"

section \<open>The upload handler: partial uploads (lines 73 to 204)\<close>

text \<open>Lines 75 to 79: \<open>[start, end, total]\<close> of the \<open>content-range\<close> header. A field
  the header does not have is \<open>undefined\<close>.\<close>

definition content_range :: "env \<Rightarrow> string \<Rightarrow> jsnum option \<times> jsnum option \<times> jsnum option" where
  "content_range e h =
     (let xs = map (Number e)
                 (split_on CHR ''/'' (replace_first ''-'' ''/'' (replace_first ''bytes '' [] h)))
      in (at_index xs 0, at_index xs 1, at_index xs 2))"

definition template_num :: "env \<Rightarrow> jsnum option \<Rightarrow> string" where
  "template_num e x = (case x of None \<Rightarrow> ''undefined'' | Some n \<Rightarrow> String_of_number e n)"

text \<open>\<open>`zipline_partial_${identifier}`\<close>, the prefix that line 104 filters by, and the
  name of the chunk's file, line 98.\<close>

definition partial_prefix :: "NextApiReq \<Rightarrow> string" where
  "partial_prefix req = ''zipline_partial_'' @ template_str (headers req ''x-zipline-partial-identifier'')"

definition tempFile :: "env \<Rightarrow> NextApiReq \<Rightarrow> string" where
  "tempFile e req =
     (case content_range e (template_str (headers req ''content-range'')) of
        (start, fin, tot) \<Rightarrow>
          partial_prefix req @ ''_'' @ template_num e start @ ''_'' @ template_num e fin)"

text \<open>Line 100: \<open>req.files[0].buffer\<close> is read before the write; it throws when
  \<open>req.files\<close> is undefined or empty.\<close>

definition write_partial :: "env \<Rightarrow> NextApiReq \<Rightarrow> state \<Rightarrow> unit step \<times> state" where
  "write_partial e req s =
     (case files req of
        None \<Rightarrow> (Stop (Threw TypeError), s)
      | Some [] \<Rightarrow> (Stop (Threw TypeError), s)
      | Some (f # fs) \<Rightarrow>
          if tmp_entry e (tempFile e req)
          then (Next (), s\<lparr>tmpdir := AList.update (tempFile e req) (buffer f) (tmpdir s)\<rparr>)
          else (Stop OutsideModel, s))"

text \<open>Lines 107 to 110: \<open>start\<close>, \<open>end\<close> and the name of each listed file, with
  \<open>Number(undefined) = NaN\<close> for a name of fewer fields.\<close>

definition Number_opt :: "env \<Rightarrow> string option \<Rightarrow> jsnum" where
  "Number_opt e x = (case x of None \<Rightarrow> NaN | Some v \<Rightarrow> Number e v)"

definition readChunk :: "env \<Rightarrow> string \<Rightarrow> jsnum \<times> jsnum \<times> string" where
  "readChunk e x =
     (Number_opt e (at_index (split_on CHR ''_'' x) 3),
      Number_opt e (at_index (split_on CHR ''_'' x) 4), x)"

text \<open>\<open>new Uint8Array(total)\<close>: zero-filled, of length \<open>ToIndex(total)\<close>.\<close>

definition new_Uint8Array :: "env \<Rightarrow> jsnum option \<Rightarrow> js_error + bytes" where
  "new_Uint8Array e tot =
     (case tot of
        None \<Rightarrow> Inr []
      | Some NaN \<Rightarrow> Inr []
      | Some NegInfinity \<Rightarrow> Inl RangeError
      | Some PosInfinity \<Rightarrow> Inl RangeError
      | Some (Num r) \<Rightarrow>
          if truncate_rat r < 0 \<or> int (max_typed_array_length e) < truncate_rat r then Inl RangeError
          else Inr (replicate (nat (truncate_rat r)) 0))"

text \<open>\<open>chunks.set(buffer, offset)\<close>: the offset is \<open>ToIntegerOrInfinity(offset)\<close>, so
  \<open>NaN\<close> is 0; a source that does not fit throws.\<close>

definition write_at :: "bytes \<Rightarrow> nat \<Rightarrow> bytes \<Rightarrow> js_error + bytes" where
  "write_at chunks off buf =
     (if off + length buf > length chunks then Inl RangeError
      else Inr (take off chunks @ buf @ drop (off + length buf) chunks))"

definition typed_array_set :: "bytes \<Rightarrow> bytes \<Rightarrow> jsnum \<Rightarrow> js_error + bytes" where
  "typed_array_set chunks buf offset =
     (case offset of
        NaN \<Rightarrow> write_at chunks 0 buf
      | NegInfinity \<Rightarrow> Inl RangeError
      | PosInfinity \<Rightarrow> Inl RangeError
      | Num r \<Rightarrow> if truncate_rat r < 0 then Inl RangeError else write_at chunks (nat (truncate_rat r)) buf)"

text \<open>The loop of lines 115 to 122: read the chunk file, unlink it, copy it in.\<close>

fun combine_chunks ::
  "(jsnum \<times> jsnum \<times> string) list \<Rightarrow> bytes \<Rightarrow> directory \<Rightarrow> (js_error + bytes) \<times> directory" where
  "combine_chunks [] chunks d = (Inr chunks, d)"
| "combine_chunks ((start, fin, filename) # rest) chunks d =
     (case map_of d filename of
        None \<Rightarrow> (Inl ENOENT, d)
      | Some buf \<Rightarrow>
          (case typed_array_set chunks buf start of
             Inl err \<Rightarrow> (Inl err, AList.delete filename d)
           | Inr chunks' \<Rightarrow> combine_chunks rest chunks' (AList.delete filename d)))"

text \<open>\<open>readdir(tmpdir())\<close>, line 103: the names of the entries, each once, sorted by
  name (\<open>scandir\<close> of libuv sorts them by \<open>strcmp\<close>).\<close>

definition readdir :: "directory \<Rightarrow> string list" where
  "readdir d = sort (remdups (map fst d))"

text \<open>Lines 103 to 122: the buffer that the rest of the handler stores.\<close>

definition reassemble :: "env \<Rightarrow> NextApiReq \<Rightarrow> state \<Rightarrow> bytes step \<times> state" where
  "reassemble e req s =
     (case content_range e (template_str (headers req ''content-range'')) of
        (start, fin, tot) \<Rightarrow>
          (let partials = filter (\<lambda>x. startsWith x (partial_prefix req)) (readdir (tmpdir s))
           in case new_Uint8Array e tot of
                Inl err \<Rightarrow> (Stop (Threw err), s)
              | Inr chunks \<Rightarrow>
                  (case combine_chunks (map (readChunk e) partials) chunks (tmpdir s) of
                     (Inl err, d) \<Rightarrow> (Stop (Threw err), s\<lparr>tmpdir := d\<rparr>)
                   | (Inr b, d) \<Rightarrow> (Next b, s\<lparr>tmpdir := d\<rparr>))))"

text \<open>Lines 174 to 181: on this path a custom domain of the user is taken as it is.\<close>

definition partial_domain :: "env \<Rightarrow> zconfig \<Rightarrow> NextApiReq \<Rightarrow> User \<Rightarrow> string" where
  "partial_domain e c req u =
     (if truthy (headers req ''override-domain'')
      then scheme c @ ''://'' @ template_str (headers req ''override-domain'')
      else if domains u \<noteq> [] then random_domain e u 0
      else scheme c @ ''://'' @ template_str (headers req ''host''))"

text \<open>Lines 129 to 145.\<close>

definition partial_fileName :: "env \<Rightarrow> zconfig \<Rightarrow> FileNameFormat option \<Rightarrow> string \<Rightarrow> string" where
  "partial_fileName e c fmt filename =
     (case fmt of
        Some RANDOM \<Rightarrow> randomChars e 0 (uploader_length c)
      | Some DATE \<Rightarrow> dayjs_format e 0 (uploader_format_date c)
      | Some UUID \<Rightarrow> randomUUID e 0
      | Some NAME \<Rightarrow> stem_of filename
      | None \<Rightarrow> randomChars e 0 (uploader_length c))"

text \<open>Lines 124 to 198: the assembled buffer is stored as it is.\<close>

definition finalize_partial ::
  "env \<Rightarrow> zconfig \<Rightarrow> NextApiReq \<Rightarrow> params \<Rightarrow> bytes \<Rightarrow> state \<Rightarrow> reply \<times> state" where
  "finalize_partial e c req p chunks s =
     (case headers req ''x-zipline-partial-filename'' of
        None \<Rightarrow> (Threw TypeError, s)
      | Some filename \<Rightarrow>
          if List.member (uploader_disabled_extensions c) (ext_of filename)
          then (ErrorReply (''disabled extension recieved: '' @ ext_of filename), s)
          else
            (case (if truthy_num (p_imageCompressionPercent p)
                   then startsWith_opt (headers req ''x-zipline-partial-mimetype'') ''image/''
                   else Inr False) of
               Inl err \<Rightarrow> (Threw err, s)
             | Inr compressionUsed \<Rightarrow>
            (case file_create e
                    (partial_fileName e c (p_format p) filename @ name_suffix compressionUsed (ext_of filename))
                    (headers req ''x-zipline-partial-mimetype'')
                    (uid (p_user p)) (truthy (headers req ''embed'')) (p_format p)
                    (hashed_password e req) (p_expiry p) (p_fileMaxViews p)
                    (if truthy (headers req ''original-name'') then Some filename else None) s of
               (file, s1) \<Rightarrow>
            (case maybe_invis e c req (fid file) s1 of
               (iv, s2) \<Rightarrow>
            (let s3 = datasource_save (name file) chunks s2;
                 url = responseUrl c (partial_domain e c req (p_user p)) iv file;
                 resp = \<lparr>resp_files = [url], resp_expiresAt = p_response_expiresAt p,
                         resp_removed_gps = False\<rparr>
             in case (if exif_wanted c
                      then startsWith_opt (headers req ''x-zipline-partial-mimetype'') ''image/''
                      else Inr False) of
                  Inl err \<Rightarrow> (Threw err, s3)
                | Inr strip \<Rightarrow>
                    if strip then (case strip_gps e file resp s3 of (r, s4) \<Rightarrow> (JsonUpload r, s4))
                    else (JsonUpload resp, s3))))))"

definition partial_upload :: "env \<Rightarrow> zconfig \<Rightarrow> NextApiReq \<Rightarrow> params \<Rightarrow> state \<Rightarrow> reply \<times> state" where
  "partial_upload e c req p s =
     (case write_partial e req s of
        (Stop r, s1) \<Rightarrow> (r, s1)
      | (Next _, s1) \<Rightarrow>
          if headers req ''x-zipline-partial-lastchunk'' = Some ''true''
          then (case reassemble e req s1 of
                  (Stop r, s2) \<Rightarrow> (r, s2)
                | (Next chunks, s2) \<Rightarrow> finalize_partial e c req p chunks s2)
          else (JsonSuccess, s1))"

section \<open>The upload handler\<close>

definition handler :: "env \<Rightarrow> zconfig \<Rightarrow> NextApiReq \<Rightarrow> state \<Rightarrow> reply \<times> state" where
  "handler e c req s =
     (case validate e c s req of
        Inl r \<Rightarrow> (r, s)
      | Inr p \<Rightarrow>
          if truthy (headers req ''content-range'') then partial_upload e c req p s
          else whole_upload e c req p s)"

section \<open>The file management endpoint (\<open>src/pages/api/user/files.ts\<close>)\<close>

text \<open>\<open>prisma.file.findMany({where: {userId}})\<close> and
  \<open>prisma.file.deleteMany({where: {userId}})\<close>.\<close>

definition file_findMany :: "state \<Rightarrow> nat \<Rightarrow> File list" where
  "file_findMany s owner = filter (\<lambda>f. userId f = owner) (file_table s)"

definition file_deleteMany :: "nat \<Rightarrow> state \<Rightarrow> nat \<times> state" where
  "file_deleteMany owner s =
     (length (file_findMany s owner),
      s\<lparr>file_table := filter (\<lambda>f. userId f \<noteq> owner) (file_table s)\<rparr>)"

text \<open>\<open>prisma.file.delete({where: {id}})\<close>: the row with that id, whoever owns it;
  \<open>None\<close> when there is none (the call throws).\<close>

definition file_delete :: "nat \<Rightarrow> state \<Rightarrow> (File \<times> state) option" where
  "file_delete i s =
     (case find (\<lambda>f. fid f = i) (file_table s) of
        None \<Rightarrow> None
      | Some f \<Rightarrow> Some (f, s\<lparr>file_table := filter (\<lambda>g. fid g \<noteq> i) (file_table s)\<rparr>))"

text \<open>\<open>prisma.file.update({where: {id}, data: {favorite}})\<close>: an \<open>undefined\<close> value
  leaves the column as it is.\<close>

definition file_update_favorite :: "nat \<Rightarrow> bool option \<Rightarrow> state \<Rightarrow> (File \<times> state) option" where
  "file_update_favorite i fav s =
     (case find (\<lambda>f. fid f = i) (file_table s) of
        None \<Rightarrow> None
      | Some f \<Rightarrow>
          (let f' = (case fav of None \<Rightarrow> f | Some b \<Rightarrow> f\<lparr>favorite := b\<rparr>)
           in Some (f', s\<lparr>file_table := map (\<lambda>g. if fid g = i then f' else g) (file_table s)\<rparr>)))"

text \<open>Lines 19 to 21.\<close>

fun delete_blobs :: "File list \<Rightarrow> state \<Rightarrow> state" where
  "delete_blobs [] s = s"
| "delete_blobs (f # fs) s = delete_blobs fs (datasource_delete (name f) s)"

text \<open>\<open>/^(video|audio|image|text)/.test(x.mimetype)\<close>.\<close>

definition is_media :: "string option \<Rightarrow> bool" where
  "is_media m =
     (startsWith (template_str m) ''video'' \<or> startsWith (template_str m) ''audio'' \<or>
      startsWith (template_str m) ''image'' \<or> startsWith (template_str m) ''text'')"

text \<open>Lines 72 to 94: the caller's records whose favorite flag is \<open>!!req.query.favorite\<close>,
  newest first, with the selected columns and the URL.\<close>

definition list_entry :: "env \<Rightarrow> zconfig \<Rightarrow> File \<Rightarrow> listed_file" where
  "list_entry e c f =
     \<lparr>l_favorite = favorite f, l_createdAt = createdAt f, l_id = fid f, l_name = name f,
      l_mimetype = mimetype f, l_expiresAt = expiresAt f, l_maxViews = maxViews f,
      l_views = views f, l_url = formatRootUrl e (uploader_route c) (name f)\<rparr>"

definition list_files :: "env \<Rightarrow> zconfig \<Rightarrow> NextApiReq \<Rightarrow> User \<Rightarrow> state \<Rightarrow> listed_file list" where
  "list_files e c req u s =
     (let found = sort_key (\<lambda>f. - createdAt f)
                    (filter (\<lambda>f. userId f = uid u \<and> favorite f = truthy (query req ''favorite''))
                       (file_table s));
          listed = map (list_entry e c) found
      in if query req ''filter'' = Some ''media'' then filter (\<lambda>x. is_media (l_mimetype x)) listed
         else listed)"

definition id_given :: "NextApiReq \<Rightarrow> bool" where
  "id_given req = (case body_id req of None \<Rightarrow> False | Some i \<Rightarrow> i \<noteq> 0)"

definition files_handler :: "env \<Rightarrow> zconfig \<Rightarrow> NextApiReq \<Rightarrow> User \<Rightarrow> state \<Rightarrow> reply \<times> state" where
  "files_handler e c req u s =
     (if http_method req = ''DELETE'' then
        (if body_all req then
           (case file_deleteMany (uid u) (delete_blobs (file_findMany s (uid u)) s) of
              (cnt, s') \<Rightarrow> (JsonCount cnt, s'))
         else if \<not> id_given req then (BadRequest ''no file id'', s)
         else (case file_delete (case body_id req of None \<Rightarrow> 0 | Some i \<Rightarrow> i) s of
                 None \<Rightarrow> (Threw RecordNotFound, s)
               | Some (f, s') \<Rightarrow> (JsonFile (f\<lparr>password := None\<rparr>), datasource_delete (name f) s')))
      else if http_method req = ''PATCH'' then
        (if \<not> id_given req then (BadRequest ''no file id'', s)
         else (case body_favorite req of
                 FavNull \<Rightarrow> (Threw TypeError, s)
               | FavUndefined \<Rightarrow>
                   (case file_update_favorite (case body_id req of None \<Rightarrow> 0 | Some i \<Rightarrow> i) None s of
                      None \<Rightarrow> (Threw RecordNotFound, s)
                    | Some (f, s') \<Rightarrow> (JsonFile (f\<lparr>password := None\<rparr>), s'))
               | FavBool b \<Rightarrow>
                   (case file_update_favorite (case body_id req of None \<Rightarrow> 0 | Some i \<Rightarrow> i) (Some b) s of
                      None \<Rightarrow> (Threw RecordNotFound, s)
                    | Some (f, s') \<Rightarrow> (JsonFile (f\<lparr>password := None\<rparr>), s'))))
      else (JsonFiles (list_files e c req u s), s))"

section \<open>Concrete requests, configurations and states\<close>

text \<open>
  Stand-ins for the parameters, used where a theorem below runs the handlers on a
  concrete request. \<open>Number_digits\<close> is \<open>Number\<close> on a non-empty string of decimal
  digits, and \<open>print_natural\<close> prints a natural number the way a template literal
  does; the examples apply them to nothing else. \<open>randomChars\<close> answers with the letter
  \<open>r\<close> repeated, \<open>sharp_jpeg\<close> puts the JPEG marker \<open>FF D8\<close> in front of its input, so
  that transcoded bytes are told from the original.
\<close>

definition digit_of :: "char \<Rightarrow> nat option" where
  "digit_of ch =
     (if (48::nat) \<le> of_char ch \<and> of_char ch \<le> (57::nat) then Some (of_char ch - 48) else None)"

fun read_dec :: "nat \<Rightarrow> string \<Rightarrow> nat option" where
  "read_dec acc [] = Some acc"
| "read_dec acc (ch # cs) =
     (case digit_of ch of None \<Rightarrow> None | Some d \<Rightarrow> read_dec (10 * acc + d) cs)"

definition Number_digits :: "string \<Rightarrow> jsnum" where
  "Number_digits v = (case read_dec 0 v of None \<Rightarrow> NaN | Some n \<Rightarrow> Num (of_nat n))"

definition print_natural :: "jsnum \<Rightarrow> string" where
  "print_natural x =
     (case x of Num r \<Rightarrow> (if 0 \<le> r then dec (nat \<lfloor>r\<rfloor>) else ''NaN'') | _ \<Rightarrow> ''NaN'')"

definition env0 :: env where
  "env0 =
     \<lparr>Number = Number_digits, String_of_number = print_natural,
      parseExpiry = (\<lambda>v. if v = ''1h'' then Some 3600000
                          else if v = ''7d'' then Some 604800000 else None),
      randomChars = (\<lambda>i n. replicate n CHR ''r''), randomUUID = (\<lambda>i. ''uuid''),
      dayjs_format = (\<lambda>i f. ''today''), Math_random = (\<lambda>i n. 0),
      hashPassword = (\<lambda>v. ''#'' @ v), invis_code = (\<lambda>n i. replicate n CHR ''z''),
      sharp_jpeg = (\<lambda>b q. Some (0xFF # 0xD8 # b)), removeGPSData = (\<lambda>f d. d),
      Date_now_check = 1000, Date_now_set = 2000, created_now = (\<lambda>i. 1500),
      tmp_entry = (\<lambda>n. \<not> List.member n CHR ''/''), max_typed_array_length = 4294967296,
      formatRootUrl = (\<lambda>r n. r @ ''/'' @ n)\<rparr>"

text \<open>The configuration of the sample environment file: https links, format
  \<open>RANDOM\<close>, route \<open>/u\<close>, length 6, \<open>RATELIMIT_USER = 5\<close>, \<open>RATELIMIT_ADMIN = 3\<close>.\<close>

definition cfg0 :: zconfig where
  "cfg0 =
     \<lparr>core_return_https = True, uploader_default_expiration = None,
      uploader_default_format = ''RANDOM'', uploader_length = 6, uploader_format_date = ''YYYY'',
      uploader_disabled_extensions = [''someext''], uploader_admin_limit = 104900000,
      uploader_user_limit = 104900000, uploader_route = ''/u'', ratelimit_admin = 3,
      ratelimit_user = 5, exif_enabled = False, exif_remove_gps = False\<rparr>"

definition alice :: User where
  "alice = \<lparr>uid = 1, username = ''alice'', token = ''t-alice'', administrator = False,
             domains = [], ratelimit = None\<rparr>"

definition bob :: User where
  "bob = \<lparr>uid = 2, username = ''bob'', token = ''t-bob'', administrator = True,
           domains = [''cdn.bob.test''], ratelimit = None\<rparr>"

definition st0 :: state where
  "st0 = \<lparr>user_table = [alice, bob], file_table = [], invisible_table = [], next_file_id = 1,
           tmpdir = [], datasource = []\<rparr>"

definition png :: multer_file where
  "png = \<lparr>originalname = ''a.png'', file_mimetype = ''image/png'', file_size = 3,
           buffer = [1, 2, 3]\<rparr>"

definition pdf :: multer_file where
  "pdf = \<lparr>originalname = ''scan.pdf'', file_mimetype = ''application/pdf'', file_size = 2,
           buffer = [4, 5]\<rparr>"

definition blob :: "bytes \<Rightarrow> multer_file" where
  "blob b = \<lparr>originalname = ''blob'', file_mimetype = ''application/octet-stream'',
              file_size = length b, buffer = b\<rparr>"

text \<open>A \<open>POST\<close> to the upload endpoint with the given headers and files.\<close>

definition post :: "(string \<times> string) list \<Rightarrow> multer_file list option \<Rightarrow> NextApiReq" where
  "post kv fs =
     \<lparr>http_method = ''POST'', headers = map_of kv, query = (\<lambda>k. None), files = fs,
      body_all = False, body_id = None, body_favorite = FavUndefined\<rparr>"

text \<open>A request to the file management endpoint.\<close>

definition manage ::
  "string \<Rightarrow> (string \<times> string) list \<Rightarrow> nat option \<Rightarrow> favorite_arg \<Rightarrow> NextApiReq" where
  "manage m q i fav =
     \<lparr>http_method = m, headers = (\<lambda>k. None), query = map_of q, files = None,
      body_all = False, body_id = i, body_favorite = fav\<rparr>"

text \<open>A File Record of the given id, name, owner and favorite flag.\<close>

definition stored :: "nat \<Rightarrow> string \<Rightarrow> nat \<Rightarrow> bool \<Rightarrow> File" where
  "stored i n owner fav =
     \<lparr>fid = i, name = n, mimetype = Some ''image/png'', userId = owner, embed = False,
      format = Some RANDOM, password = None, expiresAt = None, maxViews = None,
      originalName = None, favorite = fav, views = 0, createdAt = 1500\<rparr>"


text \<open>The two chunks of a ten-byte upload whose session identifier is \<open>7_0\<close>; the
  second is marked as the last.\<close>

definition chunk1 :: NextApiReq where
  "chunk1 = post [(''authorization'', ''t-alice''), (''host'', ''h.test''),
                  (''content-range'', ''bytes 0-4/10''), (''x-zipline-partial-identifier'', ''7_0''),
                  (''x-zipline-partial-filename'', ''big.bin''),
                  (''x-zipline-partial-mimetype'', ''application/octet-stream'')]
                 (Some [blob [1, 2, 3, 4, 5]])"

definition chunk2 :: NextApiReq where
  "chunk2 = post [(''authorization'', ''t-alice''), (''host'', ''h.test''),
                  (''content-range'', ''bytes 5-9/10''), (''x-zipline-partial-identifier'', ''7_0''),
                  (''x-zipline-partial-filename'', ''big.bin''),
                  (''x-zipline-partial-mimetype'', ''application/octet-stream''),
                  (''x-zipline-partial-lastchunk'', ''true'')]
                 (Some [blob [6, 7, 8, 9, 10]])"

text \<open>
  A client that uploads a byte sequence in chunks. \<open>tiles off ps\<close> are the chunks of the
  sequence cut into the pieces \<open>ps\<close>, each with its offset; \<open>chunk_name\<close> is the name
  of the file that holds a chunk; \<open>chunk_request\<close> is the request that uploads one,
  made from a request \<open>base\<close> that carries the other headers; \<open>chunk_requests\<close> marks
  the last request of a session as the last chunk; \<open>serve\<close> runs the upload handler on
  a sequence of requests, one after the other.
\<close>

fun tiles :: "nat \<Rightarrow> bytes list \<Rightarrow> (nat \<times> bytes) list" where
  "tiles off [] = []"
| "tiles off (b # bs) = (off, b) # tiles (off + length b) bs"

definition chunk_name :: "string \<Rightarrow> nat \<times> bytes \<Rightarrow> string" where
  "chunk_name ident ch =
     ''zipline_partial_'' @ ident @ ''_'' @ dec (fst ch) @ ''_'' @ dec (fst ch + length (snd ch) - 1)"

definition chunk_request :: "NextApiReq \<Rightarrow> string \<Rightarrow> nat \<Rightarrow> bool \<Rightarrow> nat \<times> bytes \<Rightarrow> NextApiReq" where
  "chunk_request base ident tot lastchunk ch =
     base\<lparr>headers := (headers base)
             (''content-range'' \<mapsto>
                ''bytes '' @ dec (fst ch) @ ''-'' @ dec (fst ch + length (snd ch) - 1) @ ''/'' @ dec tot,
              ''x-zipline-partial-identifier'' \<mapsto> ident,
              ''x-zipline-partial-lastchunk'' \<mapsto> (if lastchunk then ''true'' else ''false'')),
           files := Some [blob (snd ch)]\<rparr>"

fun chunk_requests :: "NextApiReq \<Rightarrow> string \<Rightarrow> nat \<Rightarrow> (nat \<times> bytes) list \<Rightarrow> NextApiReq list" where
  "chunk_requests base ident tot [] = []"
| "chunk_requests base ident tot [ch] = [chunk_request base ident tot True ch]"
| "chunk_requests base ident tot (ch # chs) =
     chunk_request base ident tot False ch # chunk_requests base ident tot chs"

fun serve :: "env \<Rightarrow> zconfig \<Rightarrow> NextApiReq list \<Rightarrow> state \<Rightarrow> reply list \<times> state" where
  "serve e c [] s = ([], s)"
| "serve e c (r # rs) s =
     (case handler e c r s of
        (a, s') \<Rightarrow> (case serve e c rs s' of (as, s'') \<Rightarrow> (a # as, s'')))"

section \<open>Evaluation of the handlers\<close>

lemma replicate_numeral_unfold: "replicate (numeral k) x = x # replicate (pred_numeral k) x"
  by (simp add: numeral_eq_Suc)

lemmas validate_defs = validate_def authorize_def user_findFirst_def read_expiry_def read_format_def
  rawFormat_def enum_member_def toUpperCase_def upper_char_def number_header_def truthy_def

lemmas store_defs = file_create_def maybe_invis_def createInvisImage_def datasource_save_def
  responseUrl_def route_prefix_def scheme_def name_suffix_def hashed_password_def exif_wanted_def
  strip_gps_def startsWith_opt_def startsWith_def random_domain_def ext_of_def stem_of_def
  template_str_def user_update_ratelimit_def

lemmas whole_defs = whole_upload_def check_ratelimit_def upload_one_def store_one_def
  choose_fileName_def whole_domain_def set_cooldown_def join_with_def

lemmas partial_defs = partial_upload_def write_partial_def tempFile_def content_range_def
  template_num_def partial_prefix_def readdir_def reassemble_def readChunk_def Number_opt_def
  new_Uint8Array_def typed_array_set_def write_at_def truncate_rat_def at_index_def
  finalize_partial_def partial_fileName_def partial_domain_def

lemmas files_defs = files_handler_def file_findMany_def file_deleteMany_def file_delete_def
  file_update_favorite_def datasource_delete_def list_files_def list_entry_def is_media_def
  id_given_def

lemmas fixture_defs = env0_def cfg0_def st0_def alice_def bob_def png_def pdf_def blob_def post_def
  manage_def stored_def Number_digits_def print_natural_def digit_of_def

lemmas run_defs = handler_def validate_defs whole_defs partial_defs store_defs fixture_defs
  dec.simps digit_char_def Let_def replicate_numeral_unfold

section \<open>The rate limiter\<close>

text \<open>
  C1. After a successful whole upload the cooldown is to be set to \<open>now + adminCooldown\<close>
  for an administrator and to \<open>now + userCooldown\<close> for any other user, when the
  configured duration is positive. The code does the first and not the second: the
  update of line 349 stands under the test \<open>user.administrator\<close> (line 348) inside the
  branch for \<open>!user.administrator\<close>, so it never runs. With \<open>RATELIMIT_USER = 5\<close>, the
  upload of a user who is not an administrator succeeds and leaves the cooldown unset;
  the same upload by an administrator sets it (here to \<open>2000 + 3 * 1000\<close>).
\<close>

theorem C1_user_cooldown_not_set:
  "\<not> administrator alice \<and> 0 < ratelimit_user cfg0 \<and>
   fst (handler env0 cfg0 (post [(''authorization'', ''t-alice''), (''host'', ''h.test'')] (Some [png])) st0) =
     JsonUpload \<lparr>resp_files = [''https://h.test/urrrrrr.png''], resp_expiresAt = None,
                 resp_removed_gps = False\<rparr> \<and>
   map ratelimit (user_table (snd (handler env0 cfg0
     (post [(''authorization'', ''t-alice''), (''host'', ''h.test'')] (Some [png])) st0))) = [None, None] \<and>
   map ratelimit (user_table (snd (handler env0 cfg0
     (post [(''authorization'', ''t-bob''), (''host'', ''h.test'')] (Some [png])) st0))) = [None, Some 5000]"
  by (simp add: run_defs)

section \<open>Ownership on the file management endpoint\<close>

text \<open>
  C2. \<open>DELETE\<close> by id and \<open>PATCH\<close> by id are to touch only File Records of the caller.
  The code looks the record up by id alone (\<open>where: {id: req.body.id}\<close>, lines 34 and
  53), where \<open>DELETE\<close> of all files and \<open>GET\<close> filter by \<open>userId\<close>. User 1 deletes the
  record and the blob of user 2, and sets the favorite flag of a record of user 2.
\<close>

theorem C2_other_users_record_changed:
  "userId (stored 7 ''b.png'' 2 False) \<noteq> uid alice \<and>
   files_handler env0 cfg0 (manage ''DELETE'' [] (Some 7) FavUndefined) alice
       (st0\<lparr>file_table := [stored 7 ''b.png'' 2 False], datasource := [(''b.png'', [9])]\<rparr>) =
     (JsonFile (stored 7 ''b.png'' 2 False), st0) \<and>
   files_handler env0 cfg0 (manage ''PATCH'' [] (Some 7) (FavBool True)) alice
       (st0\<lparr>file_table := [stored 7 ''b.png'' 2 False]\<rparr>) =
     (JsonFile (stored 7 ''b.png'' 2 True), st0\<lparr>file_table := [stored 7 ''b.png'' 2 True]\<rparr>)"
  by (simp add: files_defs fixture_defs Let_def)

section \<open>Reassembly of a partial upload\<close>

text \<open>
  C3. The chunks of a session that tile \<open>[0, total)\<close> are to be reassembled to the
  original bytes. The code recovers each chunk's offset from its file name
  \<open>zipline_partial_<identifier>_<start>_<end>\<close> as the fourth field of
  \<open>name.split('_')\<close> (line 108), which is \<open>start\<close> only when the identifier has no
  underscore. With the identifier \<open>7_0\<close> and the chunks \<open>bytes 0-4/10\<close> and
  \<open>bytes 5-9/10\<close>, the fourth field of both names is the \<open>0\<close> of the identifier: both
  chunks are copied to offset 0, and the stored object is the second chunk followed by
  five zero bytes instead of the ten bytes uploaded. Both chunk files are deleted.
\<close>

theorem C3_reassembly_with_underscore:
  "handler env0 cfg0 chunk1 st0 =
     (JsonSuccess, st0\<lparr>tmpdir := [(''zipline_partial_7_0_0_4'', [1, 2, 3, 4, 5])]\<rparr>) \<and>
   handler env0 cfg0 chunk2 (snd (handler env0 cfg0 chunk1 st0)) =
     (JsonUpload \<lparr>resp_files = [''https://h.test/urrrrrr.bin''], resp_expiresAt = None,
                  resp_removed_gps = False\<rparr>,
      st0\<lparr>file_table := [(stored 1 ''rrrrrr.bin'' 1 False)\<lparr>mimetype := Some ''application/octet-stream''\<rparr>],
          next_file_id := 2,
          datasource := [(''rrrrrr.bin'', [6, 7, 8, 9, 10, 0, 0, 0, 0, 0])]\<rparr>)"
  by (simp add: run_defs chunk1_def chunk2_def)

subsection \<open>Sessions whose identifier has no underscore\<close>

text \<open>Decimal numerals have no separator in them, so the fields of a \<open>content-range\<close>
  header and of a chunk's file name are read back as they were written.\<close>

lemma split_on_nonempty: "split_on c s \<noteq> []"
  by (induction s) (auto split: list.splits)

lemma split_on_no_sep: "c \<notin> set a \<Longrightarrow> split_on c a = [a]"
  by (induction a) auto

lemma split_on_append: "c \<notin> set a \<Longrightarrow> split_on c (a @ c # b) = a # split_on c b"
  by (induction a) auto

lemma replace_first_char: "c \<notin> set a \<Longrightarrow> replace_first [c] rep (a @ c # r) = a @ rep @ r"
  by (induction a) auto

lemma dec_digits: "set (dec n) \<subseteq> set ''0123456789''"
proof (induction n rule: dec.induct)
  case (1 n)
  have d: "digit_char k \<in> set ''0123456789''" if "k < 10" for k
    unfolding digit_char_def using that nth_mem [of k "''0123456789''"] by simp
  show ?case
  proof (cases "n < 10")
    case True
    with d [of n] show ?thesis by (subst dec.simps) simp
  next
    case False
    with 1 d [of "n mod 10"] show ?thesis by (subst dec.simps) simp
  qed
qed

lemma dec_no_sep [simp]:
  "CHR ''_'' \<notin> set (dec n)" "CHR ''/'' \<notin> set (dec n)" "CHR ''-'' \<notin> set (dec n)"
  using dec_digits [of n] by auto

lemma content_range_dec:
  "content_range e (''bytes '' @ dec a @ ''-'' @ dec b @ ''/'' @ dec t) =
     (Some (Number e (dec a)), Some (Number e (dec b)), Some (Number e (dec t)))"
  by (simp add: content_range_def replace_first_char split_on_append split_on_no_sep at_index_def)

lemma split_chunk_name:
  "CHR ''_'' \<notin> set ident \<Longrightarrow>
   split_on CHR ''_'' (chunk_name ident ch) =
     [''zipline'', ''partial'', ident, dec (fst ch), dec (fst ch + length (snd ch) - 1)]"
  by (simp add: chunk_name_def split_on_append split_on_no_sep)

lemma readChunk_chunk_name:
  "CHR ''_'' \<notin> set ident \<Longrightarrow>
   readChunk e (chunk_name ident ch) =
     (Number e (dec (fst ch)), Number e (dec (fst ch + length (snd ch) - 1)), chunk_name ident ch)"
  by (simp add: readChunk_def split_chunk_name at_index_def Number_opt_def)

lemma startsWith_append: "startsWith (p @ r) p"
  by (simp add: startsWith_def)

lemma chunk_name_prefix: "startsWith (chunk_name ident ch) (''zipline_partial_'' @ ident)"
  unfolding chunk_name_def using startsWith_append [of "''zipline_partial_'' @ ident"]
  by (simp del: append_Cons)

lemma tiles_fit:
  "(a, b) \<in> set (tiles off ps) \<Longrightarrow>
     off \<le> a \<and> a + length b \<le> off + length (concat ps) \<and>
     (\<forall>j < length b. concat ps ! (a - off + j) = b ! j)"
proof (induction ps arbitrary: off)
  case Nil
  then show ?case by simp
next
  case (Cons p ps)
  show ?case
  proof (cases "(a, b) = (off, p)")
    case True
    then show ?thesis by (simp add: nth_append)
  next
    case False
    with Cons.prems have "(a, b) \<in> set (tiles (off + length p) ps)" by auto
    from Cons.IH [OF this]
    have 1: "off + length p \<le> a"
      and 2: "a + length b \<le> off + length p + length (concat ps)"
      and 3: "\<forall>j < length b. concat ps ! (a - (off + length p) + j) = b ! j"
      by blast+
    have "(p @ concat ps) ! (a - off + j) = b ! j" if "j < length b" for j
    proof -
      have "\<not> a - off + j < length p" using 1 by arith
      moreover have "a - off + j - length p = a - (off + length p) + j" using 1 by arith
      ultimately show ?thesis using 3 that by (simp add: nth_append)
    qed
    with 1 2 show ?thesis by simp
  qed
qed

lemma tiles_cover:
  "i < length (concat ps) \<Longrightarrow> \<exists>ch \<in> set (tiles off ps). fst ch \<le> off + i \<and> off + i < fst ch + length (snd ch)"
proof (induction ps arbitrary: off i)
  case Nil
  then show ?case by simp
next
  case (Cons p ps)
  show ?case
  proof (cases "i < length p")
    case True
    then show ?thesis by simp
  next
    case False
    with Cons.prems have "i - length p < length (concat ps)" by simp
    from Cons.IH [OF this, of "off + length p"] False show ?thesis by auto
  qed
qed

lemma tiles_offsets_distinct: "[] \<notin> set ps \<Longrightarrow> distinct (map fst (tiles off ps))"
proof (induction ps arbitrary: off)
  case Nil
  then show ?case by simp
next
  case (Cons p ps)
  have "off \<notin> fst ` set (tiles (off + length p) ps)"
  proof
    assume "off \<in> fst ` set (tiles (off + length p) ps)"
    then obtain b where "(off, b) \<in> set (tiles (off + length p) ps)" by auto
    from tiles_fit [OF this] have "off + length p \<le> off" by simp
    with Cons.prems show False by simp
  qed
  with Cons show ?case by simp
qed

lemma nth_write:
  "i < length buf \<Longrightarrow> a + length b \<le> length buf \<Longrightarrow>
   (take a buf @ b @ drop (a + length b) buf) ! i =
     (if a \<le> i \<and> i < a + length b then b ! (i - a) else buf ! i)"
  by (auto simp: nth_append min_def)

lemma typed_array_set_nat:
  "a + length b \<le> length buf \<Longrightarrow>
   typed_array_set buf b (Num (of_nat a)) = Inr (take a buf @ b @ drop (a + length b) buf)"
  by (simp add: typed_array_set_def write_at_def truncate_rat_def)

lemma new_Uint8Array_nat:
  "n \<le> max_typed_array_length e \<Longrightarrow> new_Uint8Array e (Some (Num (of_nat n))) = Inr (replicate n 0)"
  by (simp add: new_Uint8Array_def truncate_rat_def)

lemma combine_chunks_agree:
  assumes "distinct (map nm cs)"
    and "\<forall>ch \<in> set cs. map_of d (nm ch) = Some (snd ch)"
    and "\<forall>ch \<in> set cs. fst ch + length (snd ch) \<le> length buf \<and>
           (\<forall>j < length (snd ch). orig ! (fst ch + j) = snd ch ! j)"
  shows "\<exists>out. combine_chunks (map (\<lambda>ch. (Num (of_nat (fst ch)), fin ch, nm ch)) cs) buf d =
            (Inr out, filter (\<lambda>kv. fst kv \<notin> nm ` set cs) d) \<and>
          length out = length buf \<and>
          (\<forall>i < length buf. out ! i =
             (if \<exists>ch \<in> set cs. fst ch \<le> i \<and> i < fst ch + length (snd ch) then orig ! i else buf ! i))"
  using assms
proof (induction cs arbitrary: buf d)
  case Nil
  then show ?case by simp
next
  case (Cons ch cs)
  let ?buf1 = "take (fst ch) buf @ snd ch @ drop (fst ch + length (snd ch)) buf"
  let ?d1 = "AList.delete (nm ch) d"
  from Cons.prems have fit: "fst ch + length (snd ch) \<le> length buf"
    and agree: "\<forall>j < length (snd ch). orig ! (fst ch + j) = snd ch ! j"
    and here: "map_of d (nm ch) = Some (snd ch)"
    by simp_all
  have len1: "length ?buf1 = length buf" using fit by simp
  have a: "distinct (map nm cs)" using Cons.prems by simp
  have b: "\<forall>x \<in> set cs. map_of ?d1 (nm x) = Some (snd x)"
  proof
    fix x assume x: "x \<in> set cs"
    have "nm ch \<notin> nm ` set cs" using Cons.prems(1) by simp
    with x have "nm x \<noteq> nm ch" by (metis image_eqI)
    with x Cons.prems show "map_of ?d1 (nm x) = Some (snd x)" by simp
  qed
  have c: "\<forall>x \<in> set cs. fst x + length (snd x) \<le> length ?buf1 \<and>
             (\<forall>j < length (snd x). orig ! (fst x + j) = snd x ! j)"
    using Cons.prems len1 by simp
  from Cons.IH [OF a b c] obtain out where
    run: "combine_chunks (map (\<lambda>ch. (Num (of_nat (fst ch)), fin ch, nm ch)) cs) ?buf1 ?d1 =
            (Inr out, filter (\<lambda>kv. fst kv \<notin> nm ` set cs) ?d1)"
    and len: "length out = length ?buf1"
    and val: "\<forall>i < length ?buf1. out ! i =
             (if \<exists>x \<in> set cs. fst x \<le> i \<and> i < fst x + length (snd x) then orig ! i else ?buf1 ! i)"
    by blast
  have dir: "filter (\<lambda>kv. fst kv \<notin> nm ` set cs) ?d1 = filter (\<lambda>kv. fst kv \<notin> nm ` set (ch # cs)) d"
    by (induction d) auto
  have "out ! i = (if \<exists>x \<in> set (ch # cs). fst x \<le> i \<and> i < fst x + length (snd x)
                   then orig ! i else buf ! i)" if i: "i < length buf" for i
  proof -
    let ?C = "\<exists>x \<in> set cs. fst x \<le> i \<and> i < fst x + length (snd x)"
    let ?H = "fst ch \<le> i \<and> i < fst ch + length (snd ch)"
    have il: "i < length ?buf1" using i len1 by (simp only:)
    have e: "out ! i = (if ?C then orig ! i else ?buf1 ! i)"
      using val [rule_format, OF il] .
    have w: "?buf1 ! i = (if ?H then snd ch ! (i - fst ch) else buf ! i)"
      using nth_write [OF i fit] .
    have g: "snd ch ! (i - fst ch) = orig ! i" if "?H"
    proof -
      from that have "i - fst ch < length (snd ch)" by arith
      with agree have "orig ! (fst ch + (i - fst ch)) = snd ch ! (i - fst ch)" by blast
      with that show ?thesis by simp
    qed
    have s: "(\<exists>x \<in> set (ch # cs). fst x \<le> i \<and> i < fst x + length (snd x)) = (?H \<or> ?C)"
      by simp
    show ?thesis unfolding s e w using g by auto
  qed
  with run len len1 dir here fit show ?case
    by (simp add: typed_array_set_nat)
qed

lemma update_fresh: "k \<notin> fst ` set al \<Longrightarrow> AList.update k v al = al @ [(k, v)]"
  by (induction al) auto

lemma authorize_tmpdir [simp]: "authorize (s\<lparr>tmpdir := d\<rparr>) req = authorize s req"
  by (simp add: authorize_def user_findFirst_def cong: option.case_cong if_cong)

lemma validate_tmpdir [simp]: "validate e c (s\<lparr>tmpdir := d\<rparr>) req = validate e c s req"
  by (simp add: validate_def)

lemma headers_chunk_request:
  "h \<noteq> ''content-range'' \<Longrightarrow> h \<noteq> ''x-zipline-partial-identifier'' \<Longrightarrow>
   h \<noteq> ''x-zipline-partial-lastchunk'' \<Longrightarrow>
   headers (chunk_request base ident tot lc ch) h = headers base h"
  by (simp add: chunk_request_def)

lemma validate_chunk_request [simp]:
  "validate e c s (chunk_request base ident tot lc ch) = validate e c s base"
proof -
  let ?req = "chunk_request base ident tot lc ch"
  have a: "authorize s ?req = authorize s base"
    by (simp add: authorize_def headers_chunk_request)
  have x: "read_expiry e c ?req = read_expiry e c base"
    by (simp add: read_expiry_def headers_chunk_request)
  have f: "read_format c ?req = read_format c base"
    by (simp add: read_format_def rawFormat_def headers_chunk_request)
  have n: "number_header e ?req ''image-compression-percent'' =
             number_header e base ''image-compression-percent''"
    "number_header e ?req ''max-views'' = number_header e base ''max-views''"
    by (simp_all add: number_header_def headers_chunk_request)
  show ?thesis unfolding validate_def a x f n ..
qed

lemma content_range_chunk_request:
  "content_range e (template_str (headers (chunk_request base ident tot lc ch) ''content-range'')) =
     (Some (Number e (dec (fst ch))), Some (Number e (dec (fst ch + length (snd ch) - 1))),
      Some (Number e (dec tot)))"
proof -
  have "headers (chunk_request base ident tot lc ch) ''content-range'' =
          Some (''bytes '' @ dec (fst ch) @ ''-'' @ dec (fst ch + length (snd ch) - 1) @ ''/'' @ dec tot)"
    by (simp add: chunk_request_def)
  then show ?thesis
    by (simp only: template_str_def option.case content_range_dec)
qed

lemma partial_prefix_chunk_request:
  "partial_prefix (chunk_request base ident tot lc ch) = ''zipline_partial_'' @ ident"
  by (simp add: partial_prefix_def chunk_request_def template_str_def)

lemma tempFile_chunk_request:
  assumes "Number e (dec (fst ch)) = Num (of_nat (fst ch))"
    and "Number e (dec (fst ch + length (snd ch) - 1)) = Num (of_nat (fst ch + length (snd ch) - 1))"
    and "String_of_number e (Num (of_nat (fst ch))) = dec (fst ch)"
    and "String_of_number e (Num (of_nat (fst ch + length (snd ch) - 1))) =
           dec (fst ch + length (snd ch) - 1)"
  shows "tempFile e (chunk_request base ident tot lc ch) = chunk_name ident ch"
  by (simp only: tempFile_def content_range_chunk_request prod.case template_num_def option.case
        assms partial_prefix_chunk_request chunk_name_def append_assoc)

lemma handler_chunk_request:
  assumes "validate e c s base = Inr p"
    and "tempFile e (chunk_request base ident tot lc ch) = chunk_name ident ch"
    and "tmp_entry e (chunk_name ident ch)"
  shows "handler e c (chunk_request base ident tot lc ch) s =
           (if lc
            then (case reassemble e (chunk_request base ident tot lc ch)
                         (s\<lparr>tmpdir := AList.update (chunk_name ident ch) (snd ch) (tmpdir s)\<rparr>) of
                    (Stop r, s2) \<Rightarrow> (r, s2)
                  | (Next chunks, s2) \<Rightarrow>
                      finalize_partial e c (chunk_request base ident tot lc ch) p chunks s2)
            else (JsonSuccess, s\<lparr>tmpdir := AList.update (chunk_name ident ch) (snd ch) (tmpdir s)\<rparr>))"
proof -
  have cr: "truthy (headers (chunk_request base ident tot lc ch) ''content-range'')"
    by (simp add: chunk_request_def truthy_def)
  have fs: "files (chunk_request base ident tot lc ch) = Some [blob (snd ch)]"
    by (simp add: chunk_request_def)
  have lc: "(headers (chunk_request base ident tot lc ch) ''x-zipline-partial-lastchunk'' = Some ''true'') = lc"
    by (simp add: chunk_request_def)
  show ?thesis
    using assms
    by (simp add: handler_def cr partial_upload_def write_partial_def fs lc blob_def)
qed

lemma chunk_name_inj:
  assumes "CHR ''_'' \<notin> set ident"
    and "Number (e::env) (dec (fst x)) = Num (of_nat (fst x))"
    and "Number e (dec (fst y)) = Num (of_nat (fst y))"
    and "chunk_name ident x = chunk_name ident y"
  shows "fst x = fst y"
proof -
  from assms(4) have "fst (readChunk e (chunk_name ident x)) = fst (readChunk e (chunk_name ident y))"
    by simp
  with assms(1-3) show ?thesis by (simp add: readChunk_chunk_name)
qed

lemma chunk_names_distinct:
  assumes ident: "CHR ''_'' \<notin> set ident"
    and num: "\<forall>n \<le> length (concat ps). Number (e::env) (dec n) = Num (of_nat n)"
    and perm: "mset cs = mset (tiles 0 ps)"
    and pieces: "[] \<notin> set ps"
  shows "distinct (map (chunk_name ident) cs)"
proof -
  have set_cs: "set cs = set (tiles 0 ps)" using perm by (rule mset_eq_setD)
  have rd: "Number e (dec (fst x)) = Num (of_nat (fst x))" if "x \<in> set cs" for x
    using tiles_fit [of "fst x" "snd x" 0 ps] that set_cs num by simp
  have "mset (map fst cs) = mset (map fst (tiles 0 ps))" using perm by (metis mset_map)
  with tiles_offsets_distinct [OF pieces, of 0] have d_off: "distinct (map fst cs)"
    by (metis mset_eq_imp_distinct_iff)
  have "inj_on (chunk_name ident) (set cs)"
  proof (rule inj_onI)
    fix x y assume xy: "x \<in> set cs" "y \<in> set cs" "chunk_name ident x = chunk_name ident y"
    from chunk_name_inj [OF ident rd [OF xy(1)] rd [OF xy(2)] xy(3)] have "fst x = fst y" .
    with d_off xy(1,2) show "x = y" by (meson distinct_map inj_onD)
  qed
  moreover from d_off have "distinct cs" by (simp add: distinct_map)
  ultimately show ?thesis by (simp add: distinct_map)
qed

lemma insort_map: "insort (f x) (map f ys) = map f (insort_key f x ys)"
  by (induction ys) auto

lemma sort_map: "sort (map f xs) = map f (sort_key f xs)"
  by (induction xs) (simp_all add: insort_map)

lemma readdir_filter:
  "filter P (readdir d) = sort (remdups (filter P (map fst d)))"
  by (simp add: readdir_def filter_sort remdups_filter)

lemma reassemble_tiles:
  assumes dir: "tmpdir s = tmp0 @ map (\<lambda>ch. (chunk_name ident ch, snd ch)) cs"
    and fresh: "\<forall>n \<in> fst ` set tmp0. \<not> startsWith n (''zipline_partial_'' @ ident)"
    and ident: "CHR ''_'' \<notin> set ident"
    and num: "\<forall>n \<le> length (concat ps). Number e (dec n) = Num (of_nat n)"
    and mx: "length (concat ps) \<le> max_typed_array_length e"
    and perm: "mset cs = mset (tiles 0 ps)"
    and pieces: "[] \<notin> set ps"
  shows "reassemble e (chunk_request base ident (length (concat ps)) lc ch) s =
           (Next (concat ps), s\<lparr>tmpdir := tmp0\<rparr>)"
proof -
  let ?tot = "length (concat ps)"
  let ?nm = "chunk_name ident"
  let ?E = "map (\<lambda>ch. (?nm ch, snd ch)) cs"
  have set_cs: "set cs = set (tiles 0 ps)" using perm by (rule mset_eq_setD)
  have fit: "fst x + length (snd x) \<le> ?tot \<and> (\<forall>j < length (snd x). concat ps ! (fst x + j) = snd x ! j)"
    if "x \<in> set cs" for x
    using tiles_fit [of "fst x" "snd x" 0 ps] that set_cs by simp
  have rd: "Number e (dec (fst x)) = Num (of_nat (fst x))" if "x \<in> set cs" for x
    using fit [OF that] num by simp
  have "mset (map fst cs) = mset (map fst (tiles 0 ps))" using perm by (metis mset_map)
  with tiles_offsets_distinct [OF pieces, of 0] have d_off: "distinct (map fst cs)"
    by (metis mset_eq_imp_distinct_iff)
  have d_nm: "distinct (map ?nm cs)"
  proof -
    have "inj_on ?nm (set cs)"
    proof (rule inj_onI)
      fix x y assume xy: "x \<in> set cs" "y \<in> set cs" "?nm x = ?nm y"
      from chunk_name_inj [OF ident rd [OF xy(1)] rd [OF xy(2)] xy(3)] have "fst x = fst y" .
      with d_off xy(1,2) show "x = y" by (meson distinct_map inj_onD)
    qed
    moreover from d_off have "distinct cs" by (simp add: distinct_map)
    ultimately show ?thesis by (simp add: distinct_map)
  qed
  let ?ls = "sort_key ?nm cs"
  have set_ls: "set ?ls = set cs" by simp
  have d_ls: "distinct (map ?nm ?ls)"
  proof -
    have "mset (map ?nm ?ls) = mset (map ?nm cs)" by simp
    with d_nm show ?thesis by (metis mset_eq_imp_distinct_iff)
  qed
  have notin: "?nm x \<notin> fst ` set tmp0" for x
    using fresh chunk_name_prefix [of ident x] by blast
  have look: "\<forall>x \<in> set ?ls. map_of (tmp0 @ ?E) (?nm x) = Some (snd x)"
    unfolding set_ls
  proof
    fix x assume x: "x \<in> set cs"
    have "map_of tmp0 (?nm x) = None" using notin [of x] by (simp add: map_of_eq_None_iff)
    moreover have "map_of ?E (?nm x) = Some (snd x)"
    proof (rule map_of_is_SomeI)
      show "distinct (map fst ?E)" using d_nm by (simp add: comp_def)
      show "(?nm x, snd x) \<in> set ?E" using x by auto
    qed
    ultimately show "map_of (tmp0 @ ?E) (?nm x) = Some (snd x)" by (simp add: map_add_def)
  qed
  have fits: "\<forall>x \<in> set ?ls. fst x + length (snd x) \<le> length (replicate ?tot (0::byte)) \<and>
                (\<forall>j < length (snd x). concat ps ! (fst x + j) = snd x ! j)"
    unfolding set_ls using fit by simp
  from combine_chunks_agree [of ?nm ?ls "tmp0 @ ?E" "replicate ?tot 0" "concat ps"
                                "\<lambda>ch. Number e (dec (fst ch + length (snd ch) - 1))", OF d_ls look fits]
  obtain out where
    run: "combine_chunks (map (\<lambda>ch. (Num (of_nat (fst ch)),
                                      Number e (dec (fst ch + length (snd ch) - 1)), ?nm ch)) ?ls)
            (replicate ?tot 0) (tmp0 @ ?E) =
          (Inr out, filter (\<lambda>kv. fst kv \<notin> ?nm ` set cs) (tmp0 @ ?E))"
    and len: "length out = ?tot"
    and val: "\<forall>i < ?tot. out ! i =
               (if \<exists>x \<in> set cs. fst x \<le> i \<and> i < fst x + length (snd x) then concat ps ! i
                else replicate ?tot 0 ! i)"
    unfolding set_ls by auto
  have "out = concat ps"
  proof (rule nth_equalityI)
    show "length out = length (concat ps)" by (rule len)
    fix i assume "i < length out"
    with len have i: "i < ?tot" by simp
    from tiles_cover [OF i, of 0] set_cs
    have "\<exists>x \<in> set cs. fst x \<le> i \<and> i < fst x + length (snd x)" by simp
    with val i show "out ! i = concat ps ! i" by simp
  qed
  moreover have "filter (\<lambda>kv. fst kv \<notin> ?nm ` set cs) (tmp0 @ ?E) = tmp0"
  proof -
    have "fst kv \<notin> ?nm ` set cs" if "kv \<in> set tmp0" for kv
    proof
      assume "fst kv \<in> ?nm ` set cs"
      then obtain x where "fst kv = ?nm x" by auto
      with that have "?nm x \<in> fst ` set tmp0" by (metis image_eqI)
      with notin show False by blast
    qed
    then have "filter (\<lambda>kv. fst kv \<notin> ?nm ` set cs) tmp0 = tmp0"
      by (simp add: filter_id_conv)
    moreover have "filter (\<lambda>kv. fst kv \<notin> ?nm ` set cs) ?E = []"
      by (auto simp: filter_empty_conv)
    ultimately show ?thesis by simp
  qed
  ultimately have run': "combine_chunks (map (\<lambda>ch. (Num (of_nat (fst ch)),
                                      Number e (dec (fst ch + length (snd ch) - 1)), ?nm ch)) ?ls)
            (replicate ?tot 0) (tmp0 @ ?E) = (Inr (concat ps), tmp0)"
    using run by simp
  have written: "filter (\<lambda>x. startsWith x (''zipline_partial_'' @ ident)) (map fst (tmp0 @ ?E)) =
                   map ?nm cs"
  proof -
    have "filter (\<lambda>x. startsWith x (''zipline_partial_'' @ ident)) (map fst tmp0) = []"
      using fresh by (auto simp: filter_empty_conv)
    moreover have "filter (\<lambda>x. startsWith x (''zipline_partial_'' @ ident)) (map fst ?E) = map ?nm cs"
      using chunk_name_prefix [of ident] by (simp add: comp_def filter_id_conv)
    ultimately show ?thesis by simp
  qed
  have listing: "filter (\<lambda>x. startsWith x (''zipline_partial_'' @ ident)) (readdir (tmp0 @ ?E)) =
                   map ?nm ?ls"
    unfolding readdir_filter written using d_nm by (simp only: distinct_remdups_id sort_map)
  have parsed: "map (readChunk e) (map ?nm ?ls) =
                  map (\<lambda>ch. (Num (of_nat (fst ch)),
                              Number e (dec (fst ch + length (snd ch) - 1)), ?nm ch)) ?ls"
    using rd by (simp add: readChunk_chunk_name [OF ident])
  have tot: "Number e (dec ?tot) = Num (of_nat ?tot)" using num by simp
  show ?thesis
    by (simp only: reassemble_def content_range_chunk_request prod.case Let_def
          partial_prefix_chunk_request dir listing parsed tot new_Uint8Array_nat [OF mx]
          sum.case run')
qed

lemma serve_chunk_requests:
  assumes ident: "CHR ''_'' \<notin> set ident"
    and num: "\<forall>n \<le> length (concat ps). Number e (dec n) = Num (of_nat n)"
    and str: "\<forall>n \<le> length (concat ps). String_of_number e (Num (of_nat n)) = dec n"
    and ent: "\<forall>ch. tmp_entry e (chunk_name ident ch)"
    and mx: "length (concat ps) \<le> max_typed_array_length e"
    and pieces: "[] \<notin> set ps"
    and fresh: "\<forall>n \<in> fst ` set tmp0. \<not> startsWith n (''zipline_partial_'' @ ident)"
  shows "cs \<noteq> [] \<Longrightarrow> mset (before @ cs) = mset (tiles 0 ps) \<Longrightarrow>
         tmpdir s = tmp0 @ map (\<lambda>ch. (chunk_name ident ch, snd ch)) before \<Longrightarrow>
         validate e c s base = Inr p \<Longrightarrow>
         serve e c (chunk_requests base ident (length (concat ps)) cs) s =
           (replicate (length cs - 1) JsonSuccess @
              [fst (finalize_partial e c
                      (chunk_request base ident (length (concat ps)) True (last cs)) p (concat ps)
                      (s\<lparr>tmpdir := tmp0\<rparr>))],
            snd (finalize_partial e c
                   (chunk_request base ident (length (concat ps)) True (last cs)) p (concat ps)
                   (s\<lparr>tmpdir := tmp0\<rparr>)))"
proof (induction cs arbitrary: before s rule: induct_list012)
  case 1
  then show ?case by simp
next
  case (2 ch)
  let ?tot = "length (concat ps)"
  let ?all = "before @ [ch]"
  let ?req = "chunk_request base ident ?tot True ch"
  from 2 have perm: "mset ?all = mset (tiles 0 ps)" by simp
  have mem: "ch \<in> set (tiles 0 ps)" using mset_eq_setD [OF perm] by auto
  from tiles_fit [of "fst ch" "snd ch" 0 ps] mem
  have le: "fst ch \<le> ?tot" "fst ch + length (snd ch) - 1 \<le> ?tot" by auto
  have tf: "tempFile e ?req = chunk_name ident ch"
    using num str le by (intro tempFile_chunk_request) simp_all
  have dn: "distinct (map (chunk_name ident) ?all)"
    by (rule chunk_names_distinct [OF ident num perm pieces])
  have "chunk_name ident ch \<notin> fst ` set tmp0"
    using fresh chunk_name_prefix [of ident ch] by blast
  moreover have "chunk_name ident ch \<notin> chunk_name ident ` set before" using dn by simp
  ultimately have fr: "chunk_name ident ch \<notin> fst ` set (tmpdir s)"
    using 2 by (auto simp: image_iff)
  let ?s1 = "s\<lparr>tmpdir := AList.update (chunk_name ident ch) (snd ch) (tmpdir s)\<rparr>"
  have d1: "tmpdir ?s1 = tmp0 @ map (\<lambda>ch. (chunk_name ident ch, snd ch)) ?all"
    using update_fresh [OF fr] 2 by simp
  have re: "reassemble e ?req ?s1 = (Next (concat ps), ?s1\<lparr>tmpdir := tmp0\<rparr>)"
    by (rule reassemble_tiles [OF d1 fresh ident num mx perm pieces])
  from 2 have v: "validate e c s base = Inr p" by simp
  show ?case
    using handler_chunk_request [OF v tf ent [rule_format]] re by (simp add: case_prod_beta)
next
  case (3 ch ch' rest)
  let ?tot = "length (concat ps)"
  let ?req = "chunk_request base ident ?tot False ch"
  from 3 have perm: "mset ((before @ [ch]) @ ch' # rest) = mset (tiles 0 ps)" by simp
  have mem: "ch \<in> set (tiles 0 ps)" using mset_eq_setD [OF perm] by auto
  from tiles_fit [of "fst ch" "snd ch" 0 ps] mem
  have le: "fst ch \<le> ?tot" "fst ch + length (snd ch) - 1 \<le> ?tot" by auto
  have tf: "tempFile e ?req = chunk_name ident ch"
    using num str le by (intro tempFile_chunk_request) simp_all
  have dn: "distinct (map (chunk_name ident) ((before @ [ch]) @ ch' # rest))"
    by (rule chunk_names_distinct [OF ident num perm pieces])
  have "chunk_name ident ch \<notin> fst ` set tmp0"
    using fresh chunk_name_prefix [of ident ch] by blast
  moreover have "chunk_name ident ch \<notin> chunk_name ident ` set before" using dn by simp
  ultimately have fr: "chunk_name ident ch \<notin> fst ` set (tmpdir s)"
    using 3 by (auto simp: image_iff)
  let ?s1 = "s\<lparr>tmpdir := AList.update (chunk_name ident ch) (snd ch) (tmpdir s)\<rparr>"
  have d1: "tmpdir ?s1 = tmp0 @ map (\<lambda>ch. (chunk_name ident ch, snd ch)) (before @ [ch])"
    using update_fresh [OF fr] 3 by simp
  from 3 have v: "validate e c s base = Inr p" by simp
  then have v1: "validate e c ?s1 base = Inr p" by simp
  have h: "handler e c ?req s = (JsonSuccess, ?s1)"
    using handler_chunk_request [OF v tf ent [rule_format]] by simp
  have "ch' # rest \<noteq> []" by simp
  from "3.IH" (2) [OF this perm d1 v1] h show ?case by (simp add: case_prod_beta)
qed

text \<open>
  The failure is confined to the file names. When the identifier has no underscore and
  the temp directory holds no other entry that begins with the session's prefix, the
  chunks of a tiling, uploaded in any order, are reassembled to the original bytes:
  each request but the last is acknowledged, the last hands the original byte sequence
  to the rest of the handler, and the temp directory is as it was before the session.
  The parameters are taken to read and print the natural numbers up to \<open>total\<close> in
  decimal, to accept the chunk names as entries of the temp directory, and to allocate
  \<open>total\<close> bytes.
\<close>

theorem reassembly_without_underscore:
  assumes "CHR ''_'' \<notin> set ident"
    and "\<forall>n \<le> length (concat ps). Number e (dec n) = Num (of_nat n)"
    and "\<forall>n \<le> length (concat ps). String_of_number e (Num (of_nat n)) = dec n"
    and "\<forall>ch. tmp_entry e (chunk_name ident ch)"
    and "length (concat ps) \<le> max_typed_array_length e"
    and "[] \<notin> set ps" and "ps \<noteq> []"
    and "mset cs = mset (tiles 0 ps)"
    and "\<forall>n \<in> fst ` set (tmpdir s). \<not> startsWith n (''zipline_partial_'' @ ident)"
    and "validate e c s base = Inr p"
  shows "serve e c (chunk_requests base ident (length (concat ps)) cs) s =
           (replicate (length cs - 1) JsonSuccess @
              [fst (finalize_partial e c
                      (chunk_request base ident (length (concat ps)) True (last cs)) p (concat ps) s)],
            snd (finalize_partial e c
                   (chunk_request base ident (length (concat ps)) True (last cs)) p (concat ps) s))"
proof -
  from assms(7) have "tiles 0 ps \<noteq> []" by (cases ps) simp_all
  with assms(8) have ne: "cs \<noteq> []" by auto
  have m: "mset ([] @ cs) = mset (tiles 0 ps)" using assms(8) by simp
  have d: "tmpdir s = tmpdir s @ map (\<lambda>ch. (chunk_name ident ch, snd ch)) []" by simp
  from serve_chunk_requests [OF assms(1-6) assms(9) ne m d assms(10)]
  show ?thesis by simp
qed

lemma chunk_name_no_slash: "CHR ''/'' \<notin> set ident \<Longrightarrow> CHR ''/'' \<notin> set (chunk_name ident ch)"
  by (simp add: chunk_name_def)

text \<open>An instance: the three bytes \<open>01 02 03\<close> uploaded as the chunk \<open>bytes 2-2/3\<close>
  followed by the chunk \<open>bytes 0-1/3\<close>, in the session \<open>s1\<close>.\<close>

theorem reassembly_example:
  "serve env0 cfg0
     (chunk_requests
        (post [(''authorization'', ''t-alice''), (''host'', ''h.test''),
               (''x-zipline-partial-filename'', ''big.bin''),
               (''x-zipline-partial-mimetype'', ''application/octet-stream'')] None)
        ''s1'' (length (concat [[1, 2], [3 :: byte]])) [(2, [3]), (0, [1, 2])]) st0 =
   ([JsonSuccess,
     JsonUpload \<lparr>resp_files = [''https://h.test/urrrrrr.bin''], resp_expiresAt = None,
                 resp_removed_gps = False\<rparr>],
    st0\<lparr>file_table := [(stored 1 ''rrrrrr.bin'' 1 False)\<lparr>mimetype := Some ''application/octet-stream''\<rparr>],
        next_file_id := 2, datasource := [(''rrrrrr.bin'', [1, 2, 3])]\<rparr>)"
proof -
  let ?base = "post [(''authorization'', ''t-alice''), (''host'', ''h.test''),
               (''x-zipline-partial-filename'', ''big.bin''),
               (''x-zipline-partial-mimetype'', ''application/octet-stream'')] None"
  let ?ps = "[[1, 2], [3 :: byte]]"
  let ?p = "\<lparr>p_user = alice, p_expiry = None, p_response_expiresAt = None, p_format = Some RANDOM,
             p_imageCompressionPercent = None, p_fileMaxViews = None\<rparr>"
  have n: "n \<le> 3 \<Longrightarrow> n = 0 \<or> n = 1 \<or> n = 2 \<or> n = 3" for n :: nat by arith
  have a: "CHR ''_'' \<notin> set ''s1''" by simp
  have b: "\<forall>n \<le> length (concat ?ps). Number env0 (dec n) = Num (of_nat n)"
  proof (intro allI impI)
    fix k assume "k \<le> length (concat ?ps)"
    then have "k = 0 \<or> k = 1 \<or> k = 2 \<or> k = 3" using n [of k] by simp
    then show "Number env0 (dec k) = Num (of_nat k)"
      by (elim disjE) (simp_all add: env0_def Number_digits_def digit_of_def dec.simps digit_char_def)
  qed
  have c: "\<forall>n \<le> length (concat ?ps). String_of_number env0 (Num (of_nat n)) = dec n"
    by (simp add: env0_def print_natural_def)
  have d: "\<forall>ch. tmp_entry env0 (chunk_name ''s1'' ch)"
    by (simp add: env0_def chunk_name_no_slash)
  have e: "length (concat ?ps) \<le> max_typed_array_length env0" by (simp add: env0_def)
  have f: "[] \<notin> set ?ps" "?ps \<noteq> []" by simp_all
  have g: "mset [(2, [3 :: byte]), (0 :: nat, [1, 2])] = mset (tiles 0 ?ps)" by simp
  have h: "\<forall>n \<in> fst ` set (tmpdir st0). \<not> startsWith n (''zipline_partial_'' @ ''s1'')"
    by (simp add: st0_def)
  have v: "validate env0 cfg0 st0 ?base = Inr ?p" by (simp add: validate_defs fixture_defs)
  note r = reassembly_without_underscore [OF a b c d e f g h v]
  show ?thesis unfolding r
    by (simp add: finalize_partial_def chunk_request_def partial_fileName_def partial_domain_def
          store_defs fixture_defs truthy_def Let_def replicate_numeral_unfold)
qed

section \<open>The scheme of the response URL\<close>

text \<open>
  C4. Every response URL is to begin with \<open>https\<close> when the server returns https links.
  On the chunked path a custom domain of the user is used as it is (line 178), without
  the scheme that the whole-upload path puts in front of it (line 317): the URL of the
  chunked upload has no scheme at all.
\<close>

theorem C4_chunked_url_without_scheme:
  "core_return_https cfg0 \<and>
   fst (handler env0 cfg0
          (post [(''authorization'', ''t-bob''), (''host'', ''h.test''),
                 (''content-range'', ''bytes 0-2/3''), (''x-zipline-partial-identifier'', ''s1''),
                 (''x-zipline-partial-filename'', ''a.png''),
                 (''x-zipline-partial-mimetype'', ''image/png''),
                 (''x-zipline-partial-lastchunk'', ''true'')] (Some [png])) st0) =
     JsonUpload \<lparr>resp_files = [''cdn.bob.test/urrrrrr.png''], resp_expiresAt = None,
                 resp_removed_gps = False\<rparr> \<and>
   fst (handler env0 cfg0 (post [(''authorization'', ''t-bob''), (''host'', ''h.test'')] (Some [png])) st0) =
     JsonUpload \<lparr>resp_files = [''https://cdn.bob.test/urrrrrr.png''], resp_expiresAt = None,
                 resp_removed_gps = False\<rparr>"
  by (simp add: run_defs)

section \<open>Expiry\<close>

text \<open>
  C6. A header \<open>expires-at\<close> that parses is to give the record's expiry, the configured
  default being used only without the header. The test of line 52 is not an \<open>else\<close> of
  line 44: with a default configured, \<open>expiry\<close> is overwritten by the default. The
  response still reports the header's date, the record holds the default's.
\<close>

theorem C6_default_expiry_overrides_header:
  "parseExpiry env0 ''1h'' = Some 3600000 \<and>
   fst (handler env0 (cfg0\<lparr>uploader_default_expiration := Some ''7d''\<rparr>)
          (post [(''authorization'', ''t-alice''), (''host'', ''h.test''), (''expires-at'', ''1h'')]
             (Some [png])) st0) =
     JsonUpload \<lparr>resp_files = [''https://h.test/urrrrrr.png''], resp_expiresAt = Some 3600000,
                 resp_removed_gps = False\<rparr> \<and>
   map expiresAt (file_table (snd (handler env0 (cfg0\<lparr>uploader_default_expiration := Some ''7d''\<rparr>)
          (post [(''authorization'', ''t-alice''), (''host'', ''h.test''), (''expires-at'', ''1h'')]
             (Some [png])) st0))) = [Some 604800000]"
  by (simp add: run_defs)

section \<open>A chunk request with no file\<close>

lemma validate_not_no_files: "validate e c s req = Inl r \<Longrightarrow> r \<noteq> BadRequest ''no files''"
  by (auto simp: validate_def authorize_def read_expiry_def Let_def
           split: option.splits sum.splits prod.splits if_splits)

lemma finalize_partial_not_bad_request: "fst (finalize_partial e c req p b s) \<noteq> BadRequest m"
  by (auto simp: finalize_partial_def strip_gps_def Let_def
           split: option.splits sum.splits prod.splits if_splits)

lemma reassemble_stop: "reassemble e req s = (Stop r, s') \<Longrightarrow> \<exists>err. r = Threw err"
  by (auto simp: reassemble_def Let_def split: option.splits sum.splits prod.splits if_splits)

lemma write_partial_stop: "write_partial e req s = (Stop r, s') \<Longrightarrow> r = Threw TypeError \<or> r = OutsideModel"
  by (auto simp: write_partial_def split: option.splits list.splits if_splits)

lemma partial_upload_not_bad_request: "fst (partial_upload e c req p s) \<noteq> BadRequest m"
proof (cases "write_partial e req s")
  case (Pair w s1)
  show ?thesis
  proof (cases w)
    case (Stop r)
    with Pair write_partial_stop[of e req s r s1] show ?thesis
      by (auto simp: partial_upload_def)
  next
    case (Next u)
    show ?thesis
    proof (cases "headers req ''x-zipline-partial-lastchunk'' = Some ''true''")
      case False
      with Pair Next show ?thesis by (simp add: partial_upload_def)
    next
      case True
      obtain w2 s2 where r: "reassemble e req s1 = (w2, s2)" by (cases "reassemble e req s1")
      show ?thesis
      proof (cases w2)
        case (Stop r2)
        with r reassemble_stop[of e req s1 r2 s2] Pair Next True show ?thesis
          by (auto simp: partial_upload_def)
      next
        case (Next b)
        with r Pair \<open>w = Next u\<close> True finalize_partial_not_bad_request[of e c req p b s2 m]
        show ?thesis by (simp add: partial_upload_def)
      qed
    qed
  qed
qed

text \<open>
  C10. A request with a \<open>content-range\<close> header never gets the answer \<open>no files\<close>: the
  check of lines 223 and 224 comes after the partial-upload branch has returned. Once
  the headers are valid, a chunk request whose \<open>req.files\<close> is undefined or empty throws
  at \<open>req.files[0].buffer\<close> (line 100), before anything is written; a chunk request with
  a file writes the buffer of the first file. Without the header, the same empty batch
  is rejected with \<open>no files\<close>.
\<close>

theorem C10_chunk_request_skips_empty_check:
  "(truthy (headers req ''content-range'') \<longrightarrow>
      fst (handler e c req s) \<noteq> BadRequest ''no files'' \<and>
      (validate e c s req = Inr p \<longrightarrow> (files req = None \<or> files req = Some []) \<longrightarrow>
         handler e c req s = (Threw TypeError, s)) \<and>
      (validate e c s req = Inr p \<longrightarrow> files req = Some (f # fs) \<longrightarrow> tmp_entry e (tempFile e req) \<longrightarrow>
         headers req ''x-zipline-partial-lastchunk'' \<noteq> Some ''true'' \<longrightarrow>
         handler e c req s =
           (JsonSuccess, s\<lparr>tmpdir := AList.update (tempFile e req) (buffer f) (tmpdir s)\<rparr>))) \<and>
   (\<not> truthy (headers req ''content-range'') \<longrightarrow> validate e c s req = Inr p \<longrightarrow>
      (files req = None \<or> files req = Some []) \<longrightarrow> ratelimit (p_user p) = None \<longrightarrow>
      handler e c req s = (BadRequest ''no files'', s))"
proof (intro conjI impI)
  assume cr: "truthy (headers req ''content-range'')"
  show "fst (handler e c req s) \<noteq> BadRequest ''no files''"
  proof (cases "validate e c s req")
    case (Inl r)
    with validate_not_no_files[OF Inl] show ?thesis by (simp add: handler_def)
  next
    case (Inr q)
    with cr partial_upload_not_bad_request[of e c req q s] show ?thesis by (simp add: handler_def)
  qed
next
  assume "truthy (headers req ''content-range'')" "validate e c s req = Inr p"
    "files req = None \<or> files req = Some []"
  then show "handler e c req s = (Threw TypeError, s)"
    by (auto simp: handler_def partial_upload_def write_partial_def)
next
  assume "truthy (headers req ''content-range'')" "validate e c s req = Inr p"
    "files req = Some (f # fs)" "tmp_entry e (tempFile e req)"
    "headers req ''x-zipline-partial-lastchunk'' \<noteq> Some ''true''"
  then show "handler e c req s =
           (JsonSuccess, s\<lparr>tmpdir := AList.update (tempFile e req) (buffer f) (tmpdir s)\<rparr>)"
    by (simp add: handler_def partial_upload_def write_partial_def)
next
  assume "\<not> truthy (headers req ''content-range'')" "validate e c s req = Inr p"
    "files req = None \<or> files req = Some []" "ratelimit (p_user p) = None"
  then show "handler e c req s = (BadRequest ''no files'', s)"
    by (auto simp: handler_def whole_upload_def check_ratelimit_def)
qed

theorem C10_witness:
  "handler env0 cfg0 (post [(''authorization'', ''t-alice''), (''content-range'', ''bytes 0-4/10'')] (Some [])) st0 =
     (Threw TypeError, st0) \<and>
   handler env0 cfg0 (post [(''authorization'', ''t-alice'')] (Some [])) st0 = (BadRequest ''no files'', st0)"
  using C10_chunk_request_skips_empty_check
          [of "post [(''authorization'', ''t-alice''), (''content-range'', ''bytes 0-4/10'')] (Some [])"
              env0 cfg0 st0
              "\<lparr>p_user = alice, p_expiry = None, p_response_expiresAt = None, p_format = Some RANDOM,
                p_imageCompressionPercent = None, p_fileMaxViews = None\<rparr>"]
        C10_chunk_request_skips_empty_check
          [of "post [(''authorization'', ''t-alice'')] (Some [])" env0 cfg0 st0
              "\<lparr>p_user = alice, p_expiry = None, p_response_expiresAt = None, p_format = Some RANDOM,
                p_imageCompressionPercent = None, p_fileMaxViews = None\<rparr>"]
  by (simp add: validate_defs fixture_defs)

section \<open>The naming format\<close>

lemma toUpperCase_eq_Nil [simp]: "(toUpperCase v = []) = (v = [])"
  by (simp add: toUpperCase_def)

text \<open>
  C7, as the claim states it: a \<open>format\<close> header whose upper case is no member of the
  enum gives the configured default format. It does not: with the default \<open>UUID\<close>
  configured, the header \<open>foo\<close> gives a random name and the format tag \<open>false\<close>, where
  a request without the header gives the UUID name.
\<close>

theorem C7_unmatched_format_ignores_default:
  "enum_member (uploader_default_format (cfg0\<lparr>uploader_default_format := ''UUID''\<rparr>)) = Some UUID \<and>
   enum_member (toUpperCase ''foo'') = None \<and>
   map name (file_table (snd (handler env0 (cfg0\<lparr>uploader_default_format := ''UUID''\<rparr>)
          (post [(''authorization'', ''t-alice''), (''host'', ''h.test''), (''format'', ''foo'')]
             (Some [png])) st0))) = [''rrrrrr.png''] \<and>
   map format (file_table (snd (handler env0 (cfg0\<lparr>uploader_default_format := ''UUID''\<rparr>)
          (post [(''authorization'', ''t-alice''), (''host'', ''h.test''), (''format'', ''foo'')]
             (Some [png])) st0))) = [None] \<and>
   map name (file_table (snd (handler env0 (cfg0\<lparr>uploader_default_format := ''UUID''\<rparr>)
          (post [(''authorization'', ''t-alice''), (''host'', ''h.test'')]
             (Some [png])) st0))) = [''uuid.png''] \<and>
   map format (file_table (snd (handler env0 (cfg0\<lparr>uploader_default_format := ''UUID''\<rparr>)
          (post [(''authorization'', ''t-alice''), (''host'', ''h.test'')]
             (Some [png])) st0))) = [Some UUID]"
  by (simp add: run_defs)

text \<open>
  C7, amended. \<open>rawFormat\<close> falls back to the configured default only when the header
  is missing or empty (line 57): then the format is the member of the enum that the
  configured default names, if any. A header that is not empty decides the format by
  its upper case alone, whatever the default. When that is no member of the enum,
  \<open>format\<close> is false and the \<open>switch\<close> takes its \<open>default\<close> branch, which is
  \<open>randomChars(length)\<close> on the chunked path, and on a whole upload the explicit name of
  \<open>x-zipline-filename\<close> (refused when a record of that name exists) or else
  \<open>randomChars(length)\<close>.
\<close>

theorem C7_unmatched_format_is_no_format:
  "(headers req ''format'' = None \<or> headers req ''format'' = Some [] \<longrightarrow>
      read_format c req = enum_member (uploader_default_format c)) \<and>
   (headers req ''format'' = Some v \<and> v \<noteq> [] \<longrightarrow>
      read_format c req = enum_member (toUpperCase v) \<and>
      read_format c' req = read_format c req \<and>
      (enum_member (toUpperCase v) = None \<longrightarrow>
         read_format c req = None \<and>
         partial_fileName e c (read_format c req) filename = randomChars e 0 (uploader_length c) \<and>
         choose_fileName e c req (read_format c req) i f s =
           (if truthy (headers req ''x-zipline-filename'')
            then (if list_ex (\<lambda>r. name r = template_str (headers req ''x-zipline-filename'')) (file_table s)
                  then Inl (BadRequest (''file['' @ dec i @ '']: filename already exists: '' @ [CHR 0x27] @
                                         template_str (headers req ''x-zipline-filename'') @ [CHR 0x27]))
                  else Inr (template_str (headers req ''x-zipline-filename'')))
            else Inr (randomChars e i (uploader_length c)))))"
proof (intro conjI impI)
  assume "headers req ''format'' = None \<or> headers req ''format'' = Some []"
  then show "read_format c req = enum_member (uploader_default_format c)"
    by (auto simp: read_format_def rawFormat_def Let_def toUpperCase_def)
next
  assume h: "headers req ''format'' = Some v \<and> v \<noteq> []"
  then show fmt: "read_format c req = enum_member (toUpperCase v)"
    by (simp add: read_format_def rawFormat_def Let_def)
  from h show "read_format c' req = read_format c req"
    by (simp add: read_format_def rawFormat_def Let_def)
  assume "enum_member (toUpperCase v) = None"
  with fmt show none: "read_format c req = None" by simp
  show "partial_fileName e c (read_format c req) filename = randomChars e 0 (uploader_length c)"
    unfolding none by (simp add: partial_fileName_def)
  show "choose_fileName e c req (read_format c req) i f s =
           (if truthy (headers req ''x-zipline-filename'')
            then (if list_ex (\<lambda>r. name r = template_str (headers req ''x-zipline-filename'')) (file_table s)
                  then Inl (BadRequest (''file['' @ dec i @ '']: filename already exists: '' @ [CHR 0x27] @
                                         template_str (headers req ''x-zipline-filename'') @ [CHR 0x27]))
                  else Inr (template_str (headers req ''x-zipline-filename'')))
            else Inr (randomChars e i (uploader_length c)))"
    unfolding none
    by (simp add: choose_fileName_def truthy_def template_str_def split: option.splits)
qed

text \<open>With the default \<open>UUID\<close> configured: a request without the header gets the format
  \<open>UUID\<close>, the header \<open>date\<close> the format \<open>DATE\<close>, and the header \<open>foo\<close> no format and a
  random name, under this default as under the default \<open>RANDOM\<close>.\<close>

theorem C7_witness:
  "headers (post [(''authorization'', ''t-alice'')] (Some [png])) ''format'' = None \<and>
   read_format (cfg0\<lparr>uploader_default_format := ''UUID''\<rparr>)
      (post [(''authorization'', ''t-alice'')] (Some [png])) = Some UUID \<and>
   headers (post [(''authorization'', ''t-alice''), (''format'', ''date'')] (Some [png])) ''format'' =
      Some ''date'' \<and>
   read_format (cfg0\<lparr>uploader_default_format := ''UUID''\<rparr>)
      (post [(''authorization'', ''t-alice''), (''format'', ''date'')] (Some [png])) = Some DATE \<and>
   headers (post [(''authorization'', ''t-alice''), (''format'', ''foo'')] (Some [png])) ''format'' =
      Some ''foo'' \<and>
   enum_member (toUpperCase ''foo'') = None \<and>
   read_format (cfg0\<lparr>uploader_default_format := ''UUID''\<rparr>)
      (post [(''authorization'', ''t-alice''), (''format'', ''foo'')] (Some [png])) = None \<and>
   read_format cfg0
      (post [(''authorization'', ''t-alice''), (''format'', ''foo'')] (Some [png])) = None \<and>
   partial_fileName env0 (cfg0\<lparr>uploader_default_format := ''UUID''\<rparr>)
      (read_format (cfg0\<lparr>uploader_default_format := ''UUID''\<rparr>)
         (post [(''authorization'', ''t-alice''), (''format'', ''foo'')] (Some [png]))) ''a.png'' =
     ''rrrrrr'' \<and>
   choose_fileName env0 (cfg0\<lparr>uploader_default_format := ''UUID''\<rparr>)
      (post [(''authorization'', ''t-alice''), (''format'', ''foo'')] (Some [png]))
      (read_format (cfg0\<lparr>uploader_default_format := ''UUID''\<rparr>)
         (post [(''authorization'', ''t-alice''), (''format'', ''foo'')] (Some [png]))) 0 png st0 =
     Inr ''rrrrrr''"
proof -
  let ?cfg = "cfg0\<lparr>uploader_default_format := ''UUID''\<rparr>"
  let ?absent = "post [(''authorization'', ''t-alice'')] (Some [png])"
  let ?date = "post [(''authorization'', ''t-alice''), (''format'', ''date'')] (Some [png])"
  let ?foo = "post [(''authorization'', ''t-alice''), (''format'', ''foo'')] (Some [png])"
  have a: "headers ?absent ''format'' = None" by (simp add: post_def)
  have d: "headers ?date ''format'' = Some ''date''" "''date'' \<noteq> []" by (simp_all add: post_def)
  have f: "headers ?foo ''format'' = Some ''foo''" "''foo'' \<noteq> []" by (simp_all add: post_def)
  have u: "enum_member (uploader_default_format ?cfg) = Some UUID" by (simp add: enum_member_def)
  have m: "enum_member (toUpperCase ''date'') = Some DATE"
    by (simp add: enum_member_def toUpperCase_def upper_char_def char_of_def bit_Suc_0_iff)
  have n: "enum_member (toUpperCase ''foo'') = None"
    by (simp add: enum_member_def toUpperCase_def upper_char_def)
  have x: "\<not> truthy (headers ?foo ''x-zipline-filename'')" by (simp add: post_def truthy_def)
  have r: "randomChars env0 0 (uploader_length ?cfg) = ''rrrrrr''"
    by (simp add: env0_def cfg0_def replicate_numeral_unfold)
  from C7_unmatched_format_is_no_format [where req = ?absent and c = ?cfg] a u
  have 1: "read_format ?cfg ?absent = Some UUID" by simp
  from C7_unmatched_format_is_no_format [where req = ?date and c = ?cfg and v = "''date''"] d m
  have 2: "read_format ?cfg ?date = Some DATE" by simp
  from C7_unmatched_format_is_no_format
         [where req = ?foo and c = ?cfg and v = "''foo''" and c' = cfg0 and e = env0
            and filename = "''a.png''" and i = 0 and f = png and s = st0] f n x r
  have 3: "read_format ?cfg ?foo = None \<and> read_format cfg0 ?foo = None \<and>
           partial_fileName env0 ?cfg (read_format ?cfg ?foo) ''a.png'' = ''rrrrrr'' \<and>
           choose_fileName env0 ?cfg ?foo (read_format ?cfg ?foo) 0 png st0 = Inr ''rrrrrr''"
    by auto
  from a d(1) f(1) n 1 2 3 show ?thesis by auto
qed

section \<open>What one file of a whole upload stores\<close>

lemma validate_percent:
  assumes "validate e c s0 req = Inr p"
  shows "p_imageCompressionPercent p = number_header e req ''image-compression-percent''"
    and "\<not> isNaN (p_imageCompressionPercent p)"
    and "\<not> js_less (p_imageCompressionPercent p) 0"
    and "\<not> js_greater (p_imageCompressionPercent p) 100"
  using assms
  by (auto simp: validate_def Let_def split: sum.splits prod.splits if_splits)

lemma accepted_truthy:
  assumes "\<not> isNaN x" and "\<not> js_less x 0" and "\<not> js_greater x 100"
  shows "truthy_num x = (\<exists>q. x = Some (Num q) \<and> 0 < q \<and> q \<le> 100)"
proof (cases x)
  case None
  then show ?thesis by simp
next
  case (Some n)
  with assms show ?thesis by (cases n) auto
qed

lemma store_one_record:
  "\<exists>rec. file_table (snd (store_one e c req p i f ext fileName resp s)) = file_table s @ [rec] \<and>
         name rec = fileName @ name_suffix (truthy_num (p_imageCompressionPercent p) \<and>
                                            startsWith (file_mimetype f) ''image/'') ext \<and>
         mimetype rec = Some (if truthy (headers req ''uploadtext'') then ''text/plain''
                              else if truthy_num (p_imageCompressionPercent p) \<and>
                                      startsWith (file_mimetype f) ''image/''
                              then ''image/jpeg'' else file_mimetype f) \<and>
         (case (if truthy_num (p_imageCompressionPercent p) \<and> startsWith (file_mimetype f) ''image/''
                then sharp_jpeg e (buffer f) (p_imageCompressionPercent p) else Some (buffer f)) of
            None \<Rightarrow> fst (store_one e c req p i f ext fileName resp s) = Stop (Threw SharpError) \<and>
                    datasource (snd (store_one e c req p i f ext fileName resp s)) = datasource s
          | Some data \<Rightarrow>
              datasource (snd (store_one e c req p i f ext fileName resp s)) =
                (if exif_wanted c \<and> startsWith_opt (mimetype rec) ''image/'' = Inr True
                 then removeGPSData e rec (AList.update (name rec) data (datasource s))
                 else AList.update (name rec) data (datasource s)))"
  by (simp add: store_one_def file_create_def maybe_invis_def createInvisImage_def datasource_save_def
        strip_gps_def startsWith_opt_def Let_def split: option.splits)

text \<open>
  C8, as the claim states it: transcoding runs for any accepted compression percent,
  0 included, on an image, and then the stored mimetype and extension are those of
  jpeg. Four uploads of the same image \<open>a.png\<close>:
  \<^item> with the percent \<open>0\<close>, which the validation accepts and which is falsy in
    \<open>imageCompressionPercent && ...\<close> (line 283), the image is stored as it was uploaded,
    under its own extension and mimetype;
  \<^item> with \<open>50\<close> it is transcoded and stored as \<open>.jpg\<close>, \<open>image/jpeg\<close>;
  \<^item> with \<open>50\<close> and the \<open>uploadtext\<close> header it is transcoded and stored as \<open>.jpg\<close>
    with the mimetype \<open>text/plain\<close> (line 288);
  \<^item> with \<open>50\<close> on the chunked path the name gets \<open>.jpg\<close>, the bytes are stored as they
    were uploaded and the mimetype is the declared one (lines 152 to 171).
\<close>

theorem C8_transcoding_cases:
  "validate env0 cfg0 st0 (post [(''authorization'', ''t-alice''), (''host'', ''h.test''),
          (''image-compression-percent'', ''0'')] (Some [png])) =
     Inr \<lparr>p_user = alice, p_expiry = None, p_response_expiresAt = None, p_format = Some RANDOM,
          p_imageCompressionPercent = Some (Num 0), p_fileMaxViews = None\<rparr> \<and>
   startsWith (file_mimetype png) ''image/'' \<and>
   snd (handler env0 cfg0 (post [(''authorization'', ''t-alice''), (''host'', ''h.test''),
          (''image-compression-percent'', ''0'')] (Some [png])) st0) =
     st0\<lparr>file_table := [stored 1 ''rrrrrr.png'' 1 False], next_file_id := 2,
         datasource := [(''rrrrrr.png'', [1, 2, 3])]\<rparr> \<and>
   snd (handler env0 cfg0 (post [(''authorization'', ''t-alice''), (''host'', ''h.test''),
          (''image-compression-percent'', ''50'')] (Some [png])) st0) =
     st0\<lparr>file_table := [(stored 1 ''rrrrrr.jpg'' 1 False)\<lparr>mimetype := Some ''image/jpeg''\<rparr>],
         next_file_id := 2, datasource := [(''rrrrrr.jpg'', [0xFF, 0xD8, 1, 2, 3])]\<rparr> \<and>
   snd (handler env0 cfg0 (post [(''authorization'', ''t-alice''), (''host'', ''h.test''),
          (''image-compression-percent'', ''50''), (''uploadtext'', ''true'')] (Some [png])) st0) =
     st0\<lparr>file_table := [(stored 1 ''rrrrrr.jpg'' 1 False)\<lparr>mimetype := Some ''text/plain''\<rparr>],
         next_file_id := 2, datasource := [(''rrrrrr.jpg'', [0xFF, 0xD8, 1, 2, 3])]\<rparr> \<and>
   snd (handler env0 cfg0 (post [(''authorization'', ''t-alice''), (''host'', ''h.test''),
          (''image-compression-percent'', ''50''), (''content-range'', ''bytes 0-2/3''),
          (''x-zipline-partial-identifier'', ''s1''), (''x-zipline-partial-filename'', ''a.png''),
          (''x-zipline-partial-mimetype'', ''image/png''),
          (''x-zipline-partial-lastchunk'', ''true'')] (Some [png])) st0) =
     st0\<lparr>file_table := [stored 1 ''rrrrrr.jpg'' 1 False], next_file_id := 2,
         datasource := [(''rrrrrr.jpg'', [1, 2, 3])]\<rparr>"
  by (simp add: run_defs)

text \<open>
  C8, amended, for a file of a whole upload whose headers passed the validation.
  Transcoding is used exactly when the compression percent header is a number \<open>q\<close> with
  \<open>0 < q \<le> 100\<close> and the file's mimetype begins with \<open>image/\<close>. Then the stored name
  ends in \<open>.jpg\<close>, the stored mimetype is \<open>image/jpeg\<close> unless the \<open>uploadtext\<close> header
  makes it \<open>text/plain\<close>, and the bytes written to the blob store are those that
  \<open>sharp\<close> returns (the record stays and nothing is written when \<open>sharp\<close> rejects).
  Otherwise the name keeps the original extension, the mimetype is the file's (or
  \<open>text/plain\<close>), and the uploaded buffer is written. In both cases the GPS pass, when
  configured and the stored mimetype is an image's, works on the bytes written.
\<close>

theorem C8_transcoding_gate:
  assumes "validate e c s0 req = Inr p"
  shows "\<exists>rec. file_table (snd (store_one e c req p i f ext fileName resp s)) = file_table s @ [rec] \<and>
          (let cu = ((\<exists>q. number_header e req ''image-compression-percent'' = Some (Num q) \<and>
                          0 < q \<and> q \<le> 100) \<and> startsWith (file_mimetype f) ''image/'')
           in name rec = fileName @ (if cu then ''.jpg'' else (if ext \<noteq> [] then ''.'' else []) @ ext) \<and>
              mimetype rec = Some (if truthy (headers req ''uploadtext'') then ''text/plain''
                                   else if cu then ''image/jpeg'' else file_mimetype f) \<and>
              (case (if cu then sharp_jpeg e (buffer f) (number_header e req ''image-compression-percent'')
                     else Some (buffer f)) of
                 None \<Rightarrow> fst (store_one e c req p i f ext fileName resp s) = Stop (Threw SharpError) \<and>
                         datasource (snd (store_one e c req p i f ext fileName resp s)) = datasource s
               | Some data \<Rightarrow>
                   datasource (snd (store_one e c req p i f ext fileName resp s)) =
                     (if exif_wanted c \<and> startsWith_opt (mimetype rec) ''image/'' = Inr True
                      then removeGPSData e rec (AList.update (name rec) data (datasource s))
                      else AList.update (name rec) data (datasource s))))"
proof -
  note v = validate_percent [OF assms]
  have gate: "truthy_num (number_header e req ''image-compression-percent'') =
                (\<exists>q. number_header e req ''image-compression-percent'' = Some (Num q) \<and> 0 < q \<and> q \<le> 100)"
    using accepted_truthy [OF v(2) v(3) v(4)] by (simp add: v(1))
  from store_one_record [of e c req p i f ext fileName resp s]
  show ?thesis unfolding name_suffix_def Let_def v(1) gate .
qed

theorem C8_witness:
  "\<exists>rec. file_table (snd (store_one env0 cfg0
             (post [(''authorization'', ''t-alice''), (''image-compression-percent'', ''50'')] (Some [png]))
             \<lparr>p_user = alice, p_expiry = None, p_response_expiresAt = None, p_format = Some RANDOM,
               p_imageCompressionPercent = Some (Num 50), p_fileMaxViews = None\<rparr>
             0 png ''png'' ''rrrrrr''
             \<lparr>resp_files = [], resp_expiresAt = None, resp_removed_gps = False\<rparr> st0)) = [rec] \<and>
          name rec = ''rrrrrr.jpg'' \<and> mimetype rec = Some ''image/jpeg'' \<and>
          datasource (snd (store_one env0 cfg0
             (post [(''authorization'', ''t-alice''), (''image-compression-percent'', ''50'')] (Some [png]))
             \<lparr>p_user = alice, p_expiry = None, p_response_expiresAt = None, p_format = Some RANDOM,
               p_imageCompressionPercent = Some (Num 50), p_fileMaxViews = None\<rparr>
             0 png ''png'' ''rrrrrr''
             \<lparr>resp_files = [], resp_expiresAt = None, resp_removed_gps = False\<rparr> st0)) =
            [(''rrrrrr.jpg'', [0xFF, 0xD8, 1, 2, 3])]"
proof -
  let ?req = "post [(''authorization'', ''t-alice''), (''image-compression-percent'', ''50'')] (Some [png])"
  let ?p = "\<lparr>p_user = alice, p_expiry = None, p_response_expiresAt = None, p_format = Some RANDOM,
             p_imageCompressionPercent = Some (Num 50), p_fileMaxViews = None\<rparr>"
  have v: "validate env0 cfg0 st0 ?req = Inr ?p"
    by (simp add: validate_defs fixture_defs)
  have n: "number_header env0 ?req ''image-compression-percent'' = Some (Num 50)"
    by (simp add: number_header_def fixture_defs)
  have m: "startsWith (file_mimetype png) ''image/''" by (simp add: startsWith_def png_def)
  have u: "\<not> truthy (headers ?req ''uploadtext'')" by (simp add: truthy_def post_def)
  have x: "\<not> exif_wanted cfg0" by (simp add: exif_wanted_def cfg0_def)
  have j: "sharp_jpeg env0 (buffer png) (Some (Num 50)) = Some [0xFF, 0xD8, 1, 2, 3]"
    by (simp add: env0_def png_def)
  have d: "datasource st0 = []" "file_table st0 = []" by (simp_all add: st0_def)
  from C8_transcoding_gate [OF v, of 0 png "''png''" "''rrrrrr''"
         "\<lparr>resp_files = [], resp_expiresAt = None, resp_removed_gps = False\<rparr>" st0]
  show ?thesis by (auto simp add: n m u x j d)
qed

section \<open>The explicit file name\<close>

text \<open>
  C5. With an explicit name and no format matched, an upload is to be refused when a
  File Record of that name exists, and otherwise to store the supplied name verbatim.
  The code looks for a record of the supplied name (lines 264 to 270) and then stores
  the supplied name followed by the extension of the uploaded file (line 287), so the
  check does not see the names it guards. \<open>report.pdf\<close> requested for the upload
  \<open>scan.pdf\<close> is stored as \<open>report.pdf.pdf\<close>; the same request made again is accepted
  again, which leaves two File Records of the name \<open>report.pdf.pdf\<close> and one object in
  the blob store. A record of the name \<open>report.pdf\<close> does make the request fail. No
  cooldown is configured for the user here.
\<close>

theorem C5_explicit_name_accepted_twice:
  "fst (serve env0 (cfg0\<lparr>ratelimit_user := 0\<rparr>)
     [post [(''authorization'', ''t-alice''), (''host'', ''h.test''), (''format'', ''none''),
            (''x-zipline-filename'', ''report.pdf'')] (Some [pdf]),
      post [(''authorization'', ''t-alice''), (''host'', ''h.test''), (''format'', ''none''),
            (''x-zipline-filename'', ''report.pdf'')] (Some [pdf])] st0) =
     [JsonUpload \<lparr>resp_files = [''https://h.test/ureport.pdf.pdf''], resp_expiresAt = None,
                  resp_removed_gps = False\<rparr>,
      JsonUpload \<lparr>resp_files = [''https://h.test/ureport.pdf.pdf''], resp_expiresAt = None,
                  resp_removed_gps = False\<rparr>] \<and>
   map name (file_table (snd (serve env0 (cfg0\<lparr>ratelimit_user := 0\<rparr>)
     [post [(''authorization'', ''t-alice''), (''host'', ''h.test''), (''format'', ''none''),
            (''x-zipline-filename'', ''report.pdf'')] (Some [pdf]),
      post [(''authorization'', ''t-alice''), (''host'', ''h.test''), (''format'', ''none''),
            (''x-zipline-filename'', ''report.pdf'')] (Some [pdf])] st0))) =
     [''report.pdf.pdf'', ''report.pdf.pdf''] \<and>
   datasource (snd (serve env0 (cfg0\<lparr>ratelimit_user := 0\<rparr>)
     [post [(''authorization'', ''t-alice''), (''host'', ''h.test''), (''format'', ''none''),
            (''x-zipline-filename'', ''report.pdf'')] (Some [pdf]),
      post [(''authorization'', ''t-alice''), (''host'', ''h.test''), (''format'', ''none''),
            (''x-zipline-filename'', ''report.pdf'')] (Some [pdf])] st0)) =
     [(''report.pdf.pdf'', [4, 5])] \<and>
   ''report.pdf.pdf'' \<noteq> ''report.pdf'' \<and>
   handler env0 (cfg0\<lparr>ratelimit_user := 0\<rparr>)
     (post [(''authorization'', ''t-alice''), (''host'', ''h.test''), (''format'', ''none''),
            (''x-zipline-filename'', ''report.pdf'')] (Some [pdf]))
     (st0\<lparr>file_table := [stored 1 ''report.pdf'' 2 False]\<rparr>) =
     (BadRequest (''file[0]: filename already exists: '' @ [CHR 0x27] @ ''report.pdf'' @ [CHR 0x27]),
      st0\<lparr>file_table := [stored 1 ''report.pdf'' 2 False]\<rparr>)"
  by (simp add: run_defs)

section \<open>The listing of the file management endpoint\<close>

lemma sorted_filter_map: "sorted (map g xs) \<Longrightarrow> sorted (map g (filter P xs))"
  by (induction xs) auto

text \<open>
  C9, as the claim states it: \<open>GET\<close> without query parameters lists all records of the
  caller, favorites included. The query of line 75 asks for \<open>favorite: !!req.query.favorite\<close>:
  without the parameter only the records that are not favorites are listed, with it
  only the favorites.
\<close>

theorem C9_listing_leaves_favorites_out:
  "fst (files_handler env0 cfg0 (manage ''GET'' [] None FavUndefined) alice
         (st0\<lparr>file_table := [stored 3 ''x.png'' 1 False, stored 4 ''y.png'' 1 True]\<rparr>)) =
     JsonFiles [list_entry env0 cfg0 (stored 3 ''x.png'' 1 False)] \<and>
   fst (files_handler env0 cfg0 (manage ''GET'' [(''favorite'', ''true'')] None FavUndefined) alice
         (st0\<lparr>file_table := [stored 3 ''x.png'' 1 False, stored 4 ''y.png'' 1 True]\<rparr>)) =
     JsonFiles [list_entry env0 cfg0 (stored 4 ''y.png'' 1 True)]"
  by (simp add: files_defs fixture_defs truthy_def Let_def)

text \<open>
  C9, amended. A request that is neither \<open>DELETE\<close> nor \<open>PATCH\<close> changes nothing and
  lists the caller's File Records whose favorite flag equals the truthiness of the
  \<open>favorite\<close> query parameter (so, without the parameter, those that are not
  favorites), narrowed to the media mimetypes when \<open>filter=media\<close>, newest first, each
  with the URL \<open>formatRootUrl(route, name)\<close>.
\<close>

theorem C9_listing_by_favorite_flag:
  assumes "http_method req \<noteq> ''DELETE''" and "http_method req \<noteq> ''PATCH''"
  shows "\<exists>entries. files_handler e c req u s = (JsonFiles entries, s) \<and>
           set entries = list_entry e c ` {f \<in> set (file_table s). userId f = uid u \<and>
                favorite f = truthy (query req ''favorite'') \<and>
                (query req ''filter'' = Some ''media'' \<longrightarrow> is_media (mimetype f))} \<and>
           (\<forall>x \<in> set entries. l_url x = formatRootUrl e (uploader_route c) (l_name x)) \<and>
           sorted (map (\<lambda>x. - l_createdAt x) entries)"
proof -
  let ?found = "sort_key (\<lambda>f. - createdAt f)
                  (filter (\<lambda>f. userId f = uid u \<and> favorite f = truthy (query req ''favorite''))
                     (file_table s))"
  have srt: "sorted (map (\<lambda>x. - l_createdAt x) (map (list_entry e c) ?found))"
    using sorted_sort_key[of "\<lambda>f. - createdAt f"] by (simp add: list_entry_def comp_def)
  have mime: "\<And>f. l_mimetype (list_entry e c f) = mimetype f" by (simp add: list_entry_def)
  have url: "\<And>f. l_url (list_entry e c f) = formatRootUrl e (uploader_route c) (l_name (list_entry e c f))"
    by (simp add: list_entry_def)
  show ?thesis
  proof (cases "query req ''filter'' = Some ''media''")
    case True
    with assms srt show ?thesis
      by (auto simp: files_handler_def list_files_def Let_def mime url intro: sorted_filter_map)
  next
    case False
    with assms srt show ?thesis
      by (auto simp: files_handler_def list_files_def Let_def mime url)
  qed
qed

theorem C9_witness:
  "\<exists>entries. files_handler env0 cfg0 (manage ''GET'' [] None FavUndefined) alice
         (st0\<lparr>file_table := [stored 3 ''x.png'' 1 False, stored 4 ''y.png'' 1 True]\<rparr>) =
       (JsonFiles entries, st0\<lparr>file_table := [stored 3 ''x.png'' 1 False, stored 4 ''y.png'' 1 True]\<rparr>) \<and>
     set entries = {list_entry env0 cfg0 (stored 3 ''x.png'' 1 False)}"
proof -
  have "{f \<in> set (file_table (st0\<lparr>file_table := [stored 3 ''x.png'' 1 False, stored 4 ''y.png'' 1 True]\<rparr>)).
          userId f = uid alice \<and> favorite f = truthy (query (manage ''GET'' [] None FavUndefined) ''favorite'') \<and>
          (query (manage ''GET'' [] None FavUndefined) ''filter'' = Some ''media'' \<longrightarrow> is_media (mimetype f))} =
        {stored 3 ''x.png'' 1 False}"
    by (auto simp: fixture_defs truthy_def)
  with C9_listing_by_favorite_flag
         [of "manage ''GET'' [] None FavUndefined" env0 cfg0 alice
             "st0\<lparr>file_table := [stored 3 ''x.png'' 1 False, stored 4 ''y.png'' 1 True]\<rparr>"]
  show ?thesis by (auto simp: manage_def)
qed

end
